theory Spec2Isabelle
  imports Main
begin

section \<open>BigNumber arithmetic and errors\<close>

text \<open>
  All amounts, prices and percentages of the relayer are ethers BigNumbers: signed integers of
  unbounded size. They are modelled as \<open>int\<close>. \<open>BigNumber.div\<close> truncates towards zero and
  throws on a zero divisor.
\<close>

type_synonym address = string
type_synonym chainId = int

datatype error =
    DivisionByZero
  | TypeError
  | AssertionError
  | InvalidDecimals
  | UnknownToken
  | GasTokenUnresolved
  | GasCostUnknown string
  | PriceUpdateFailed
  | MissingTokenDefinition
  | UnexpectedOutputToken
  | RepaymentChainsDisagree
  | ParseError

definition bindE :: "error + 'a \<Rightarrow> ('a \<Rightarrow> error + 'b) \<Rightarrow> error + 'b" where
  "bindE m f = (case m of Inl e \<Rightarrow> Inl e | Inr v \<Rightarrow> f v)"

fun mapE :: "('a \<Rightarrow> error + 'b) \<Rightarrow> 'a list \<Rightarrow> error + 'b list" where
  "mapE f [] = Inr []"
| "mapE f (x # xs) =
     (case f x of Inl e \<Rightarrow> Inl e
      | Inr y \<Rightarrow> (case mapE f xs of Inl e \<Rightarrow> Inl e | Inr ys \<Rightarrow> Inr (y # ys)))"

definition bn_quot :: "int \<Rightarrow> int \<Rightarrow> int" where
  \<comment> \<open>the quotient of BigNumber.div for a non-zero divisor: truncation towards zero\<close>
  "bn_quot a b = sgn a * sgn b * (\<bar>a\<bar> div \<bar>b\<bar>)"

definition bn_div :: "int \<Rightarrow> int \<Rightarrow> error + int" where
  "bn_div a b = (if b = 0 then Inl DivisionByZero else Inr (bn_quot a b))"

definition fixedPointAdjustment :: int where
  \<comment> \<open>Modelled from the spec: the constant is imported from the utilities; \<open>fixedPoint = 10^18\<close>\<close>
  "fixedPointAdjustment = 10 ^ 18"

definition uint256Max :: int where
  \<comment> \<open>Modelled from the spec: \<open>bnUint256Max\<close> and \<open>MAX_UINT_VAL\<close> are imported constants, the
      largest unsigned 256-bit integer\<close>
  "uint256Max = 2 ^ 256 - 1"

definition MAX_UINT_VAL :: int where
  "MAX_UINT_VAL = uint256Max"

definition toBNWei :: "int \<Rightarrow> int" where
  \<comment> \<open>\<open>toBNWei(n)\<close> for an integer literal \<open>n\<close>: the 18-decimal fixed-point form of \<open>n\<close>\<close>
  "toBNWei n = n * 10 ^ 18"

definition ConvertDecimals :: "nat \<Rightarrow> nat \<Rightarrow> int \<Rightarrow> int" where
  \<comment> \<open>Modelled from the spec: \<open>sdkUtils.ConvertDecimals\<close> is not part of the sources;
      \<open>convertDecimals(from, to, x) = x * 10^(to-from)\<close> for \<open>to \<ge> from\<close>, else floor-divide\<close>
  "ConvertDecimals fromDecimals toDecimals x =
     (if fromDecimals \<le> toDecimals then x * 10 ^ (toDecimals - fromDecimals)
      else x div 10 ^ (fromDecimals - toDecimals))"

section \<open>Deposits\<close>

record Deposit =
  depositId :: int
  originChainId :: chainId
  destinationChainId :: chainId
  inputToken :: address
  inputAmount :: int
  outputToken :: address
  outputAmount :: int
  updatedOutputAmount :: "int option"
  message :: string
  updatedMessage :: "string option"
  fromLiteChain :: bool
  toLiteChain :: bool

definition resolveDepositMessage :: "Deposit \<Rightarrow> string" where
  \<comment> \<open>Modelled from the spec: the message the fill will carry (an updated message wins)\<close>
  "resolveDepositMessage d = (case updatedMessage d of Some m \<Rightarrow> m | None \<Rightarrow> message d)"

definition isMessageEmpty :: "string \<Rightarrow> bool" where
  \<comment> \<open>Modelled from the spec: "the deposit carries an empty message"; the empty byte string is
      written \<open>0x\<close>\<close>
  "isMessageEmpty m = (m = [] \<or> m = ''0x'')"

section \<open>Repayment chain selector: excess running balances\<close>

definition excessPct :: "int \<Rightarrow> int \<Rightarrow> int \<Rightarrow> error + int" where
  \<comment> \<open>body of the map in \<open>_getExcessRunningBalancePcts\<close>: the \<open>pct\<close> field of \<open>returnObj\<close>\<close>
  "excessPct target excess refundAmountInL1TokenDecimals =
     (let excessPostRelay = excess - refundAmountInL1TokenDecimals in
      if target \<ge> excessPostRelay then Inr 0
      else if target = 0 then Inr MAX_UINT_VAL
      else bn_div ((excessPostRelay - target) * fixedPointAdjustment) \<bar>target\<bar>)"

definition priv_getExcessRunningBalancePcts ::
  "(address \<Rightarrow> chainId \<Rightarrow> int) \<Rightarrow> (chainId \<times> int) list \<Rightarrow> address \<Rightarrow> int
     \<Rightarrow> error + (chainId \<times> int) list" where
  \<comment> \<open>\<open>_getExcessRunningBalancePcts\<close>; the first argument is
      \<open>configStoreClient.getSpokeTargetBalancesForBlock(l1Token, chainId).target\<close>, a dictionary
      is the list of its entries\<close>
  "priv_getExcessRunningBalancePcts spokeTarget excessRunningBalances l1Token refundAmount =
     mapE (\<lambda>(chain, excess).
             case excessPct (spokeTarget l1Token chain) excess refundAmount of
               Inl e \<Rightarrow> Inl e
             | Inr pct \<Rightarrow> Inr (chain, pct))
          excessRunningBalances"

definition excessPctSpec :: "int \<Rightarrow> int \<Rightarrow> int \<Rightarrow> int" where
  \<comment> \<open>the excess percentage in the words of the specification, with floor division\<close>
  "excessPctSpec T E R =
     (if T \<ge> E - R then 0
      else if T = 0 then 2 ^ 256 - 1
      else (((E - R) - T) * 10 ^ 18) div \<bar>T\<bar>)"

section \<open>Profit client\<close>

text \<open>
  The collaborators of \<open>ProfitClient\<close> that are not part of the sources are fields of an
  environment record: token tables, the hub pool client's token information, the gas simulator,
  the process environment and the price feed. A lookup that finds nothing, or a call that throws,
  is \<open>None\<close>.
\<close>

definition MAINNET :: chainId where
  \<comment> \<open>\<open>CHAIN_IDs.MAINNET\<close>; \<open>resolveGasToken\<close> reads \<open>addresses[1]\<close> for it\<close>
  "MAINNET = 1"

definition SEPOLIA :: chainId where
  \<comment> \<open>Modelled from the spec: \<open>CHAIN_IDs.SEPOLIA\<close>, the testnet hub chain\<close>
  "SEPOLIA = 11155111"

definition SOLANA :: chainId where
  \<comment> \<open>Modelled from the spec: \<open>CHAIN_IDs.SOLANA\<close>, the non-EVM chain\<close>
  "SOLANA = 34268394551451"

record TransactionCostEstimate =
  nativeGasCost :: int
  tokenGasCost :: int
  gasPrice :: int

datatype feeKey =
    TokenKey string \<comment> \<open>\<open>MIN_RELAYER_FEE_PCT_<symbol>\<close>\<close>
  | RouteKey string chainId chainId \<comment> \<open>\<open>MIN_RELAYER_FEE_PCT_<symbol>_<src>_<dst>\<close>\<close>

record ProfitEnv =
  hubPoolChainId :: chainId
  getNativeTokenSymbol :: "chainId \<Rightarrow> string option"
  TOKEN_SYMBOLS_MAP :: "string \<Rightarrow> (nat \<times> (chainId \<Rightarrow> address option)) option"
  TOKEN_EQUIVALENCE_REMAPPING :: "string \<Rightarrow> string option"
  getTokenInfoForAddress :: "address \<Rightarrow> chainId \<Rightarrow> (string \<times> nat) option"
  getTokenInfo :: "address \<Rightarrow> chainId \<Rightarrow> (string \<times> nat) option"
  isAddress :: "string \<Rightarrow> bool"
  isSvmAddress :: "string \<Rightarrow> bool"
  getGasCosts :: "Deposit \<Rightarrow> address \<Rightarrow> TransactionCostEstimate option"
  processEnv :: "feeKey \<Rightarrow> string option"
  parseWei :: "string \<Rightarrow> int option"
  hubPoolL1Tokens :: "string list"
  getPricesByAddress :: "address option list \<Rightarrow> (address \<times> string) list option"

record ProfitClient =
  defaultMinRelayerFeePct :: int
  gasMultiplier :: int
  gasMessageMultiplier :: int
  gasPadding :: int
  relayerAddress :: address
  enabledChainIds :: "chainId list"
  additionalL1Tokens :: "address list"
  isTestnet :: bool
  minRelayerFees :: "feeKey \<Rightarrow> int option"
  tokenSymbolMap :: "string \<Rightarrow> address option"
  tokenPrices :: "address \<Rightarrow> int option"
  totalGasCosts :: "chainId \<Rightarrow> TransactionCostEstimate option"

record FillCost =
  nativeGasCost :: int
  tokenGasCost :: int
  gasPrice :: int
  gasTokenPriceUsd :: int
  gasCostUsd :: int

record FillProfit =
  inputTokenPriceUsd :: int
  inputAmountUsd :: int
  outputTokenPriceUsd :: int
  outputAmountUsd :: int
  grossRelayerFeePct :: int
  grossRelayerFeeUsd :: int
  nativeGasCost :: int
  tokenGasCost :: int
  gasPrice :: int
  gasPadding :: int
  gasMultiplier :: int
  gasTokenPriceUsd :: int
  gasCostUsd :: int
  netRelayerFeePct :: int
  netRelayerFeeUsd :: int
  totalFeePct :: int
  profitable :: bool

record FillDecision =
  profitable :: bool
  nativeGasCost :: int
  tokenGasCost :: int
  gasPrice :: int
  netRelayerFeePct :: int

definition newProfitClient ::
  "ProfitEnv \<Rightarrow> chainId list \<Rightarrow> address \<Rightarrow> int \<Rightarrow> int \<Rightarrow> int \<Rightarrow> int \<Rightarrow> address list
     \<Rightarrow> error + ProfitClient" where
  \<comment> \<open>the constructor: range assertions, then the stored padding is \<open>1 + gasPadding\<close>\<close>
  "newProfitClient env enabled relayer defaultMin gasMult gasMsgMult gasPad additional =
     (if \<not> (gasPad \<ge> 0 \<and> gasPad \<le> toBNWei 2) then Inl AssertionError
      else if \<not> (gasMult \<ge> 0 \<and> gasMult \<le> toBNWei 4) then Inl AssertionError
      else if \<not> (gasMsgMult \<ge> 0 \<and> gasMsgMult \<le> toBNWei 4) then Inl AssertionError
      else Inr \<lparr> defaultMinRelayerFeePct = defaultMin,
                 ProfitClient.gasMultiplier = gasMult,
                 gasMessageMultiplier = gasMsgMult,
                 ProfitClient.gasPadding = toBNWei 1 + gasPad,
                 relayerAddress = relayer,
                 enabledChainIds = enabled,
                 additionalL1Tokens = additional,
                 isTestnet = (hubPoolChainId env \<noteq> MAINNET),
                 minRelayerFees = (\<lambda>_. None),
                 tokenSymbolMap = (\<lambda>_. None),
                 tokenPrices = (\<lambda>_. None),
                 totalGasCosts = (\<lambda>_. None) \<rparr>)"

definition resolveGasMultiplier :: "ProfitClient \<Rightarrow> Deposit \<Rightarrow> int" where
  "resolveGasMultiplier pc deposit =
     (if isMessageEmpty (resolveDepositMessage deposit) then ProfitClient.gasMultiplier pc
      else gasMessageMultiplier pc)"

definition resolveGasToken :: "ProfitEnv \<Rightarrow> chainId \<Rightarrow> error + (string \<times> address option \<times> nat)" where
  "resolveGasToken env chain =
     (case getNativeTokenSymbol env chain of
        None \<Rightarrow> Inl GasTokenUnresolved
      | Some symbol \<Rightarrow>
          (case TOKEN_SYMBOLS_MAP env symbol of
             None \<Rightarrow> Inl GasTokenUnresolved
           | Some (decimals, addresses) \<Rightarrow> Inr (symbol, addresses 1, decimals)))"

definition resolveTokenAddress :: "ProfitEnv \<Rightarrow> ProfitClient \<Rightarrow> string \<Rightarrow> error + address" where
  \<comment> \<open>an address is its native string; \<open>toAddressType(a, chain).toNative()\<close> is \<open>a\<close>\<close>
  "resolveTokenAddress env pc token =
     (if isAddress env token then Inr token
      else if isSvmAddress env token then Inr token
      else
        let remappedTokenSymbol =
              (case TOKEN_EQUIVALENCE_REMAPPING env token of Some s \<Rightarrow> s | None \<Rightarrow> token);
            address =
              (case tokenSymbolMap pc remappedTokenSymbol of
                 Some a \<Rightarrow> Some a
               | None \<Rightarrow> tokenSymbolMap pc token)
        in (case address of None \<Rightarrow> Inl AssertionError | Some a \<Rightarrow> Inr a))"

definition getPriceOfToken :: "ProfitEnv \<Rightarrow> ProfitClient \<Rightarrow> string \<Rightarrow> error + int" where
  "getPriceOfToken env pc token =
     bindE (resolveTokenAddress env pc token)
       (\<lambda>address. case tokenPrices pc address of None \<Rightarrow> Inr 0 | Some price \<Rightarrow> Inr price)"

definition gasCostSentinel :: TransactionCostEstimate where
  "gasCostSentinel =
     \<lparr> TransactionCostEstimate.nativeGasCost = uint256Max,
       TransactionCostEstimate.tokenGasCost = uint256Max,
       TransactionCostEstimate.gasPrice = uint256Max \<rparr>"

definition priv_getTotalGasCost ::
  "ProfitEnv \<Rightarrow> ProfitClient \<Rightarrow> Deposit \<Rightarrow> address \<Rightarrow> TransactionCostEstimate" where
  \<comment> \<open>\<open>_getTotalGasCost\<close>: the query of a chain without a fee query object, and a query that
      throws, both end in the catch block\<close>
  "priv_getTotalGasCost env pc deposit relayer =
     (if destinationChainId deposit \<in> set (enabledChainIds pc) then
        (case getGasCosts env deposit relayer of
           Some cost \<Rightarrow> cost
         | None \<Rightarrow> gasCostSentinel)
      else gasCostSentinel)"

definition getTotalGasCost :: "ProfitEnv \<Rightarrow> ProfitClient \<Rightarrow> Deposit \<Rightarrow> TransactionCostEstimate" where
  "getTotalGasCost env pc deposit =
     (case (if isMessageEmpty (resolveDepositMessage deposit)
            then totalGasCosts pc (destinationChainId deposit) else None) of
        Some cached \<Rightarrow> cached
      | None \<Rightarrow> priv_getTotalGasCost env pc deposit (relayerAddress pc))"

definition gasFieldUnknown :: "int \<Rightarrow> bool" where
  \<comment> \<open>\<open>field.eq(uint256Max) || field.lte(bnZero)\<close>\<close>
  "gasFieldUnknown field = (field = uint256Max \<or> field \<le> 0)"

definition estimateFillCost :: "ProfitEnv \<Rightarrow> ProfitClient \<Rightarrow> Deposit \<Rightarrow> error + FillCost" where
  "estimateFillCost env pc deposit =
     bindE (resolveGasToken env (destinationChainId deposit)) (\<lambda>(gasSymbol, gasAddress, gasDecimals).
     bindE (getPriceOfToken env pc gasSymbol) (\<lambda>gasTokenPrice.
       let totalGasCost = getTotalGasCost env pc deposit;
           rawNative = TransactionCostEstimate.nativeGasCost totalGasCost;
           rawToken = TransactionCostEstimate.tokenGasCost totalGasCost
       in
       if gasFieldUnknown rawNative then Inl (GasCostUnknown ''gas consumption'')
       else if gasFieldUnknown rawToken then Inl (GasCostUnknown ''gas cost'')
       else if gasFieldUnknown gasTokenPrice then Inl (GasCostUnknown ''gas token price'')
       else
         let paddedNative = bn_quot (rawNative * ProfitClient.gasPadding pc) fixedPointAdjustment;
             paddedToken = bn_quot (rawToken * ProfitClient.gasPadding pc) fixedPointAdjustment;
             multiplier = resolveGasMultiplier pc deposit;
             scaledToken = bn_quot (paddedToken * multiplier) fixedPointAdjustment;
             costUsd = bn_quot (scaledToken * gasTokenPrice) (10 ^ gasDecimals)
         in Inr \<lparr> FillCost.nativeGasCost = paddedNative,
                    FillCost.tokenGasCost = scaledToken,
                    FillCost.gasPrice = TransactionCostEstimate.gasPrice totalGasCost,
                    FillCost.gasTokenPriceUsd = gasTokenPrice,
                    FillCost.gasCostUsd = costUsd \<rparr>))"

definition minRelayerFeePct ::
  "ProfitEnv \<Rightarrow> ProfitClient \<Rightarrow> string \<Rightarrow> chainId \<Rightarrow> chainId \<Rightarrow> error + (int \<times> ProfitClient)" where
  \<comment> \<open>returns the fee and the client with the route saved; the keys are kept as the components
      of the template strings\<close>
  "minRelayerFeePct env pc symbol srcChainId dstChainId =
     (let effectiveSymbol =
            (case TOKEN_EQUIVALENCE_REMAPPING env symbol of Some s \<Rightarrow> s | None \<Rightarrow> symbol);
          tokenKey = TokenKey effectiveSymbol;
          routeKey = RouteKey effectiveSymbol srcChainId dstChainId;
          saved = (case minRelayerFees pc routeKey of Some f \<Rightarrow> Some f | None \<Rightarrow> minRelayerFees pc tokenKey)
      in case saved of
           Some fee \<Rightarrow> Inr (fee, pc)
         | None \<Rightarrow>
             (let configured =
                    (case processEnv env routeKey of Some v \<Rightarrow> Some v | None \<Rightarrow> processEnv env tokenKey);
                  resolved =
                    (case configured of
                       None \<Rightarrow> Inr (defaultMinRelayerFeePct pc)
                     | Some v \<Rightarrow>
                         if v = [] then Inr (defaultMinRelayerFeePct pc)
                         else (case parseWei env v of None \<Rightarrow> Inl ParseError | Some fee \<Rightarrow> Inr fee))
              in bindE resolved
                   (\<lambda>fee. Inr (fee, pc\<lparr> minRelayerFees := (minRelayerFees pc)(routeKey := Some fee) \<rparr>))))"

definition tokenScalar :: "nat \<Rightarrow> error + int" where
  \<comment> \<open>\<open>toBNWei(1, 18 - decimals)\<close>: a negative number of decimals is rejected\<close>
  "tokenScalar decimals = (if decimals \<le> 18 then Inr (10 ^ (18 - decimals)) else Inl InvalidDecimals)"

definition effectiveOutputAmount :: "Deposit \<Rightarrow> int" where
  \<comment> \<open>\<open>min(deposit.outputAmount, deposit.updatedOutputAmount ?? deposit.outputAmount)\<close>\<close>
  "effectiveOutputAmount deposit =
     min (outputAmount deposit)
         (case updatedOutputAmount deposit of Some u \<Rightarrow> u | None \<Rightarrow> outputAmount deposit)"

definition tokenInfoE :: "ProfitEnv \<Rightarrow> address \<Rightarrow> chainId \<Rightarrow> error + (string \<times> nat)" where
  \<comment> \<open>\<open>hubPoolClient.getTokenInfoForAddress\<close>, which throws for an unknown token\<close>
  "tokenInfoE env token chain =
     (case getTokenInfoForAddress env token chain of None \<Rightarrow> Inl UnknownToken | Some info \<Rightarrow> Inr info)"

definition calculateFillProfitability ::
  "ProfitEnv \<Rightarrow> ProfitClient \<Rightarrow> Deposit \<Rightarrow> int \<Rightarrow> int \<Rightarrow> error + FillProfit" where
  "calculateFillProfitability env pc deposit lpFeePct minFeePct =
     bindE (tokenInfoE env (inputToken deposit) (originChainId deposit)) (\<lambda>(inputSymbol, inputDecimals).
     bindE (getPriceOfToken env pc inputSymbol) (\<lambda>inputPrice.
     bindE (tokenScalar inputDecimals) (\<lambda>inputTokenScalar.
     let scaledInputAmount = inputAmount deposit * inputTokenScalar;
         inputUsd = bn_quot (scaledInputAmount * inputPrice) fixedPointAdjustment in
     bindE (tokenInfoE env (outputToken deposit) (destinationChainId deposit)) (\<lambda>(outputSymbol, outputDecimals).
     bindE (getPriceOfToken env pc outputSymbol) (\<lambda>outputPrice.
     bindE (tokenScalar outputDecimals) (\<lambda>outputTokenScalar.
     let scaledOutputAmount = effectiveOutputAmount deposit * outputTokenScalar;
         outputUsd = bn_quot (scaledOutputAmount * outputPrice) fixedPointAdjustment in
     bindE (bn_div ((inputUsd - outputUsd) * fixedPointAdjustment) inputUsd) (\<lambda>totalFee.
     let scaledLpFeeAmount = bn_quot (scaledInputAmount * lpFeePct) fixedPointAdjustment;
         lpFeeUsd = bn_quot (scaledLpFeeAmount * inputPrice) fixedPointAdjustment;
         grossFeeUsd = inputUsd - outputUsd - lpFeeUsd in
     bindE (if grossFeeUsd > 0 then bn_div (grossFeeUsd * fixedPointAdjustment) inputUsd else Inr 0)
       (\<lambda>grossFeePct.
     bindE (estimateFillCost env pc deposit) (\<lambda>cost.
     let netFeeUsd = grossFeeUsd - FillCost.gasCostUsd cost in
     bindE (if outputUsd > 0 then bn_div (netFeeUsd * fixedPointAdjustment) outputUsd else Inr 0)
       (\<lambda>netFeePct.
     Inr \<lparr> inputTokenPriceUsd = inputPrice,
           inputAmountUsd = inputUsd,
           outputTokenPriceUsd = outputPrice,
           outputAmountUsd = outputUsd,
           grossRelayerFeePct = grossFeePct,
           grossRelayerFeeUsd = grossFeeUsd,
           FillProfit.nativeGasCost = FillCost.nativeGasCost cost,
           FillProfit.tokenGasCost = FillCost.tokenGasCost cost,
           FillProfit.gasPrice = FillCost.gasPrice cost,
           FillProfit.gasPadding = ProfitClient.gasPadding pc,
           FillProfit.gasMultiplier = resolveGasMultiplier pc deposit,
           FillProfit.gasTokenPriceUsd = FillCost.gasTokenPriceUsd cost,
           FillProfit.gasCostUsd = FillCost.gasCostUsd cost,
           FillProfit.netRelayerFeePct = netFeePct,
           netRelayerFeeUsd = netFeeUsd,
           totalFeePct = totalFee,
           FillProfit.profitable = (inputPrice > 0 \<and> outputPrice > 0 \<and> netFeePct \<ge> minFeePct) \<rparr>
     ))))))))))"

definition getTokenSymbol :: "ProfitEnv \<Rightarrow> address \<Rightarrow> chainId \<Rightarrow> string" where
  "getTokenSymbol env token chain =
     (case getTokenInfo env token chain of Some (symbol, decimals) \<Rightarrow> symbol | None \<Rightarrow> ''UNKNOWN'')"

definition getFillProfitability ::
  "ProfitEnv \<Rightarrow> ProfitClient \<Rightarrow> Deposit \<Rightarrow> int \<Rightarrow> address \<Rightarrow> chainId
     \<Rightarrow> ProfitClient \<times> (error + FillProfit)" where
  \<comment> \<open>the client returned is the one with the route's minimum fee saved\<close>
  "getFillProfitability env pc deposit lpFeePct l1Token repaymentChainId =
     (let symbol = getTokenSymbol env l1Token (hubPoolChainId env) in
      case minRelayerFeePct env pc symbol (originChainId deposit) (destinationChainId deposit) of
        Inl e \<Rightarrow> (pc, Inl e)
      | Inr (minFee, pc') \<Rightarrow> (pc', calculateFillProfitability env pc' deposit lpFeePct minFee))"

definition isFillProfitable ::
  "ProfitEnv \<Rightarrow> ProfitClient \<Rightarrow> Deposit \<Rightarrow> int \<Rightarrow> address \<Rightarrow> chainId
     \<Rightarrow> ProfitClient \<times> FillDecision" where
  "isFillProfitable env pc deposit lpFeePct l1Token repaymentChainId =
     (case getFillProfitability env pc deposit lpFeePct l1Token repaymentChainId of (pc', outcome) \<Rightarrow>
        let found =
              (case outcome of
                 Inr fill \<Rightarrow>
                   (FillProfit.profitable fill, FillProfit.netRelayerFeePct fill,
                    FillProfit.nativeGasCost fill, FillProfit.tokenGasCost fill,
                    FillProfit.gasPrice fill)
               | Inl e \<Rightarrow> (False, 0, uint256Max, uint256Max, uint256Max))
        in case found of (isProfitable, netPct, native, token, price) \<Rightarrow>
          (pc', \<lparr> FillDecision.profitable = (isProfitable \<or> (isTestnet pc' \<and> native < uint256Max)),
                  FillDecision.nativeGasCost = native,
                  FillDecision.tokenGasCost = token,
                  FillDecision.gasPrice = price,
                  FillDecision.netRelayerFeePct = netPct \<rparr>))"

subsection \<open>Price cache\<close>

text \<open>
  \<open>hubPoolL1Tokens\<close> are the symbols of \<open>hubPoolClient.getL1Tokens()\<close>. The price feed returns
  prices as decimal numbers, which \<open>toBNWei\<close> parses (\<open>parseWei\<close>, \<open>None\<close> where it throws);
  a rejected request is \<open>None\<close>. A property read with the key \<open>undefined\<close> reads the key
  \<open>"undefined"\<close>.
\<close>

definition keyOf :: "address option \<Rightarrow> string" where
  "keyOf a = (case a of None \<Rightarrow> ''undefined'' | Some address \<Rightarrow> address)"

fun objectSet :: "string \<Rightarrow> 'a \<Rightarrow> (string \<times> 'a) list \<Rightarrow> (string \<times> 'a) list" where
  \<comment> \<open>writing a string key of an object: in place, or last for a new key\<close>
  "objectSet k v [] = [(k, v)]"
| "objectSet k v ((k', v') # rest) =
     (if k = k' then (k, v) # rest else (k', v') # objectSet k v rest)"

definition dedupFirst :: "'a list \<Rightarrow> 'a list" where
  \<comment> \<open>\<open>Array.from(new Set(xs))\<close>: first occurrences, in order\<close>
  "dedupFirst xs = rev (remdups (rev xs))"

definition priv_getL1Tokens :: "ProfitEnv \<Rightarrow> ProfitClient \<Rightarrow> error + string list" where
  \<comment> \<open>\<open>_getL1Tokens\<close>, as the symbols of the tokens\<close>
  "priv_getL1Tokens env pc =
     bindE (mapE (\<lambda>l1Token. case getTokenInfo env l1Token (hubPoolChainId env) of
                               None \<Rightarrow> Inl UnknownToken
                             | Some (symbol, decimals) \<Rightarrow> Inr symbol)
                 (additionalL1Tokens pc))
       (\<lambda>additional. Inr (hubPoolL1Tokens env @ additional))"

definition mainnetAddressOf :: "ProfitEnv \<Rightarrow> string \<Rightarrow> chainId \<Rightarrow> error + address option" where
  \<comment> \<open>\<open>TOKEN_SYMBOLS_MAP[symbol].addresses[network]\<close> with the Sepolia fallback to ETH\<close>
  "mainnetAddressOf env symbol network =
     (case TOKEN_SYMBOLS_MAP env symbol of
        None \<Rightarrow> Inl TypeError
      | Some (decimals, addresses) \<Rightarrow>
          (case addresses network of
             Some a \<Rightarrow> Inr (Some a)
           | None \<Rightarrow>
               if hubPoolChainId env = SEPOLIA then
                 (case TOKEN_SYMBOLS_MAP env ''ETH'' of
                    None \<Rightarrow> Inl TypeError
                  | Some (ethDecimals, ethAddresses) \<Rightarrow> Inr (ethAddresses MAINNET))
               else Inr None))"

definition l1TokenEntry :: "ProfitEnv \<Rightarrow> ProfitClient \<Rightarrow> string \<Rightarrow> error + (string option \<times> address option)" where
  \<comment> \<open>the body of the map over the L1 tokens\<close>
  "l1TokenEntry env pc l1Symbol =
     (let symbol = (case TOKEN_SYMBOLS_MAP env l1Symbol of
                      Some entry \<Rightarrow> Some l1Symbol
                    | None \<Rightarrow> TOKEN_EQUIVALENCE_REMAPPING env l1Symbol)
      in case symbol of
           None \<Rightarrow> if isTestnet pc then Inr (None, None) else Inl MissingTokenDefinition
         | Some resolved \<Rightarrow>
             bindE (mainnetAddressOf env resolved MAINNET) (\<lambda>address. Inr (Some resolved, address)))"

definition priv_getNativeTokenNetwork :: "string \<Rightarrow> chainId" where
  "priv_getNativeTokenNetwork symbol = (if symbol = ''SOL'' then SOLANA else MAINNET)"

definition nativeTokenEntry :: "ProfitEnv \<Rightarrow> chainId \<Rightarrow> error + (string \<times> address option)" where
  \<comment> \<open>the gas token of an enabled chain and its address for the price lookup\<close>
  "nativeTokenEntry env chain =
     (let symbol = keyOf (getNativeTokenSymbol env chain) in
      case TOKEN_SYMBOLS_MAP env symbol of
        None \<Rightarrow>
          if hubPoolChainId env = SEPOLIA then
            (case TOKEN_SYMBOLS_MAP env ''ETH'' of
               None \<Rightarrow> Inl TypeError
             | Some (ethDecimals, ethAddresses) \<Rightarrow> Inr (symbol, ethAddresses MAINNET))
          else Inr (symbol, None)
      | Some entry \<Rightarrow>
          bindE (mainnetAddressOf env symbol (priv_getNativeTokenNetwork symbol))
            (\<lambda>address. Inr (symbol, address)))"

definition tokensToUpdate :: "ProfitEnv \<Rightarrow> ProfitClient \<Rightarrow> error + (string \<times> address option) list" where
  \<comment> \<open>the object \<open>tokens\<close> of \<open>updateTokenPrices\<close>, as its entries\<close>
  "tokensToUpdate env pc =
     bindE (priv_getL1Tokens env pc) (\<lambda>l1Tokens.
     bindE (mapE (l1TokenEntry env pc) l1Tokens) (\<lambda>entries.
     let tokens0 =
           foldl (\<lambda>obj entry. case entry of
                                 (Some symbol, Some address) \<Rightarrow> objectSet symbol (Some address) obj
                               | _ \<Rightarrow> obj)
                 [] entries
     in
     bindE (mapE (nativeTokenEntry env) (enabledChainIds pc)) (\<lambda>natives.
       Inr (foldl (\<lambda>obj (symbol, address).
                     case map_of obj symbol of
                       Some (Some known) \<Rightarrow> obj
                     | _ \<Rightarrow> objectSet symbol address obj)
                  tokens0 natives))))"

definition prePopulate :: "ProfitClient \<Rightarrow> (string \<times> address option) list \<Rightarrow> ProfitClient" where
  \<comment> \<open>\<open>tokenSymbolMap[symbol] ??= address; tokenPrices[address] ??= bnZero\<close> for every entry\<close>
  "prePopulate pc tokens =
     foldl (\<lambda>client (symbol, address).
              client\<lparr> tokenSymbolMap :=
                        (case tokenSymbolMap client symbol of
                           Some known \<Rightarrow> tokenSymbolMap client
                         | None \<Rightarrow> (tokenSymbolMap client)(symbol := address)),
                      tokenPrices :=
                        (case tokenPrices client (keyOf address) of
                           Some known \<Rightarrow> tokenPrices client
                         | None \<Rightarrow> (tokenPrices client)(keyOf address := Some 0)) \<rparr>)
           pc tokens"

fun storePrices :: "ProfitEnv \<Rightarrow> ProfitClient \<Rightarrow> (address \<times> string) list \<Rightarrow> ProfitClient \<times> error option" where
  \<comment> \<open>\<open>tokenPrices.forEach(({ address, price }) => (this.tokenPrices[address] = toBNWei(price)))\<close>:
      a price that does not parse stops the loop after the prices before it are stored\<close>
  "storePrices env pc [] = (pc, None)"
| "storePrices env pc ((address, price) # rest) =
     (case parseWei env price of
        None \<Rightarrow> (pc, Some ParseError)
      | Some value \<Rightarrow>
          storePrices env (pc\<lparr> tokenPrices := (tokenPrices pc)(address := Some value) \<rparr>) rest)"

definition priceUpdateError :: "ProfitEnv \<Rightarrow> ProfitClient \<Rightarrow> (string \<times> address option) list \<Rightarrow> error" where
  \<comment> \<open>the catch block: it reads the last known price of every token for the warning, which can
      itself throw, and then throws the update error\<close>
  "priceUpdateError env pc tokens =
     (case mapE (\<lambda>(symbol, address). getPriceOfToken env pc (keyOf address)) tokens of
        Inl e \<Rightarrow> e
      | Inr lastKnown \<Rightarrow> PriceUpdateFailed)"

definition updateTokenPrices :: "ProfitEnv \<Rightarrow> ProfitClient \<Rightarrow> ProfitClient \<times> error option" where
  \<comment> \<open>the client after the call, and the error thrown, if any\<close>
  "updateTokenPrices env pc =
     (case tokensToUpdate env pc of
        Inl e \<Rightarrow> (pc, Some e)
      | Inr tokens \<Rightarrow>
          let populated = prePopulate pc tokens in
          case getPricesByAddress env (dedupFirst (map snd tokens)) of
            None \<Rightarrow> (populated, Some (priceUpdateError env populated tokens))
          | Some fetched \<Rightarrow>
              (case storePrices env populated fetched of
                 (stored, None) \<Rightarrow> (stored, None)
               | (stored, Some e) \<Rightarrow> (stored, Some (priceUpdateError env stored tokens))))"

definition lastKnownPrice :: "ProfitClient \<Rightarrow> address \<Rightarrow> int" where
  \<comment> \<open>the price that \<open>getPriceOfToken\<close> reads for an address: 0 for an address not in the list\<close>
  "lastKnownPrice pc address = (case tokenPrices pc address of None \<Rightarrow> 0 | Some price \<Rightarrow> price)"

section \<open>Inventory client\<close>

text \<open>
  The inventory configuration maps an L1 token either to its per-chain configurations or, for an
  alias configuration, to the L2 tokens that stand for it, each with per-chain configurations.
  A JavaScript object is the list of its entries where the order of the keys is read, and a
  partial function where it is only looked up.
\<close>

record TokenBalanceConfig =
  targetOverageBuffer :: "int option"
  targetPct :: int
  thresholdPct :: int
  unwrapWethThreshold :: "int option"
  unwrapWethTarget :: "int option"
  withdrawExcessPeriod :: "nat option"

type_synonym ChainTokenConfig = "chainId \<Rightarrow> TokenBalanceConfig option"

datatype TokenConfig =
    Direct ChainTokenConfig
  | Alias "(address \<times> ChainTokenConfig) list"

type_synonym CombinedRefunds = "chainId \<Rightarrow> address \<Rightarrow> (address \<times> int) list option"

record InventoryEnv =
  hubChainId :: chainId
  l1TokenDecimals :: "address \<Rightarrow> nat option"
  l2TokenDecimals :: "address \<Rightarrow> chainId \<Rightarrow> nat option"
  getBalance :: "chainId \<Rightarrow> address \<Rightarrow> int"
  getShortfallTotalRequirement :: "chainId \<Rightarrow> address \<Rightarrow> int"
  getOutstandingCrossChainTransferAmount :: "chainId \<Rightarrow> address \<Rightarrow> address option \<Rightarrow> int"
  remoteTokenForL1Token :: "address \<Rightarrow> chainId \<Rightarrow> address option"
  isSupportedL2Bridge :: "chainId \<Rightarrow> address \<Rightarrow> bool option"
  getL2PendingWithdrawalAmount :: "nat \<Rightarrow> chainId \<Rightarrow> address \<Rightarrow> int option"

text \<open>
  \<open>l1TokenDecimals t\<close> is \<open>getTokenInfo(t, hubChainId).decimals\<close> and \<open>l2TokenDecimals t c\<close> is
  \<open>hubPoolClient.getTokenInfoForAddress(t, c).decimals\<close>; both throw for an unknown token.
  \<open>remoteTokenForL1Token\<close> is the utility \<open>getRemoteTokenForL1Token(l1Token, chainId, hubChainId)\<close>.
  \<open>isSupportedL2Bridge c\<close> is \<open>None\<close> where the adapter manager has no adapter for \<open>c\<close>, and
  \<open>getL2PendingWithdrawalAmount\<close> is \<open>None\<close> where the adapter's query fails.
\<close>

record InventoryClient =
  tokenConfig :: "(address \<times> TokenConfig) list option"
  chainIdList :: "chainId list"
  prioritizeLpUtilization :: bool

definition DEFAULT_TOKEN_OVERAGE :: int where
  "DEFAULT_TOKEN_OVERAGE = 15 * 10 ^ 17"

definition lookupTokenConfig :: "InventoryClient \<Rightarrow> address \<Rightarrow> error + TokenConfig option" where
  \<comment> \<open>\<open>this.inventoryConfig.tokenConfig[l1Token]\<close>: reading a key of an undefined
      \<open>tokenConfig\<close> is a TypeError\<close>
  "lookupTokenConfig cl l1Token =
     (case tokenConfig cl of None \<Rightarrow> Inl TypeError | Some cfg \<Rightarrow> Inr (map_of cfg l1Token))"

definition getTokenConfig ::
  "InventoryClient \<Rightarrow> address \<Rightarrow> chainId \<Rightarrow> address option \<Rightarrow> error + TokenBalanceConfig option" where
  "getTokenConfig cl l1Token chain l2Token =
     bindE (lookupTokenConfig cl l1Token) (\<lambda>found.
       case found of
         None \<Rightarrow> Inr None
       | Some (Alias entries) \<Rightarrow>
           (case l2Token of
              None \<Rightarrow> Inl AssertionError
            | Some l2 \<Rightarrow> (case map_of entries l2 of None \<Rightarrow> Inr None | Some byChain \<Rightarrow> Inr (byChain chain)))
       | Some (Direct byChain) \<Rightarrow> Inr (byChain chain))"

definition getEnabledChains :: "InventoryClient \<Rightarrow> chainId list" where
  "getEnabledChains cl = chainIdList cl"

definition getEnabledL2Chains :: "InventoryEnv \<Rightarrow> InventoryClient \<Rightarrow> chainId list" where
  "getEnabledL2Chains env cl = filter (\<lambda>chain. chain \<noteq> hubChainId env) (getEnabledChains cl)"

definition getL1Tokens :: "InventoryClient \<Rightarrow> address list" where
  \<comment> \<open>the keys of \<open>tokenConfig ?? {}\<close>; an array is never falsy, so the right operand of
      \<open>||\<close> is never taken\<close>
  "getL1Tokens cl = (case tokenConfig cl of None \<Rightarrow> [] | Some cfg \<Rightarrow> remdups (map fst cfg))"

definition isInventoryManagementEnabled :: "InventoryClient \<Rightarrow> bool" where
  "isInventoryManagementEnabled cl =
     (case tokenConfig cl of None \<Rightarrow> False | Some cfg \<Rightarrow> cfg \<noteq> [])"

definition l1TokenEnabledForChain :: "InventoryClient \<Rightarrow> address \<Rightarrow> chainId \<Rightarrow> bool" where
  \<comment> \<open>\<open>_l1TokenEnabledForChain\<close>\<close>
  "l1TokenEnabledForChain cl l1Token chain =
     (case tokenConfig cl of
        None \<Rightarrow> False
      | Some cfg \<Rightarrow>
          (case map_of cfg l1Token of
             None \<Rightarrow> False
           | Some (Direct byChain) \<Rightarrow> byChain chain \<noteq> None
           | Some (Alias entries) \<Rightarrow> list_ex (\<lambda>(l2, byChain). byChain chain \<noteq> None) entries))"

definition getRemoteTokenForL1Token :: "InventoryEnv \<Rightarrow> address \<Rightarrow> chainId \<Rightarrow> address option" where
  "getRemoteTokenForL1Token env l1Token chain =
     (if chain = hubChainId env then Some l1Token else remoteTokenForL1Token env l1Token chain)"

definition getRemoteTokensForL1Token ::
  "InventoryEnv \<Rightarrow> InventoryClient \<Rightarrow> address \<Rightarrow> chainId \<Rightarrow> error + address list" where
  "getRemoteTokensForL1Token env cl l1Token chain =
     (if chain = hubChainId env then Inr [l1Token]
      else bindE (lookupTokenConfig cl l1Token) (\<lambda>found.
        case found of
          None \<Rightarrow> Inr []
        | Some (Alias entries) \<Rightarrow>
            Inr (map fst (filter (\<lambda>(l2, byChain). byChain chain \<noteq> None) entries))
        | Some (Direct byChain) \<Rightarrow>
            (case getRemoteTokenForL1Token env l1Token chain of
               None \<Rightarrow> Inr []
             | Some destinationToken \<Rightarrow> Inr [destinationToken])))"

definition decimalsE :: "nat option \<Rightarrow> error + nat" where
  "decimalsE found = (case found of None \<Rightarrow> Inl UnknownToken | Some decimals \<Rightarrow> Inr decimals)"

definition getBalanceOnChain ::
  "InventoryEnv \<Rightarrow> InventoryClient \<Rightarrow> chainId \<Rightarrow> address \<Rightarrow> address option \<Rightarrow> error + int" where
  "getBalanceOnChain env cl chain l1Token l2Token =
     bindE (decimalsE (l1TokenDecimals env l1Token)) (\<lambda>l1Decimals.
       case l2Token of
         Some l2 \<Rightarrow>
           bindE (decimalsE (l2TokenDecimals env l2 chain)) (\<lambda>l2Decimals.
             Inr (ConvertDecimals l2Decimals l1Decimals (getBalance env chain l2)
                  + getOutstandingCrossChainTransferAmount env chain l1Token (Some l2)))
       | None \<Rightarrow>
           bindE (getRemoteTokensForL1Token env cl l1Token chain) (\<lambda>l2Tokens.
           bindE (mapE (\<lambda>l2. bindE (decimalsE (l2TokenDecimals env l2 chain)) (\<lambda>l2Decimals.
                               Inr (ConvertDecimals l2Decimals l1Decimals (getBalance env chain l2))))
                       l2Tokens) (\<lambda>balances.
             Inr (sum_list balances
                  + getOutstandingCrossChainTransferAmount env chain l1Token None))))"

definition getCumulativeBalance :: "InventoryEnv \<Rightarrow> InventoryClient \<Rightarrow> address \<Rightarrow> error + int" where
  "getCumulativeBalance env cl l1Token =
     bindE (mapE (\<lambda>chain. getBalanceOnChain env cl chain l1Token None) (getEnabledChains cl))
       (\<lambda>balances. Inr (sum_list balances))"

definition getCurrentAllocationPct ::
  "InventoryEnv \<Rightarrow> InventoryClient \<Rightarrow> address \<Rightarrow> chainId \<Rightarrow> address \<Rightarrow> error + int" where
  "getCurrentAllocationPct env cl l1Token chain l2Token =
     bindE (getCumulativeBalance env cl l1Token) (\<lambda>cumulativeBalance.
       if cumulativeBalance = 0 then Inr 0
       else
         bindE (decimalsE (l2TokenDecimals env l2Token chain)) (\<lambda>l2Decimals.
         bindE (decimalsE (l1TokenDecimals env l1Token)) (\<lambda>l1Decimals.
         let shortfall = ConvertDecimals l2Decimals l1Decimals
                           (getShortfallTotalRequirement env chain l2Token) in
         bindE (getBalanceOnChain env cl chain l1Token (Some l2Token)) (\<lambda>effectiveBalance.
         let currentBalance = effectiveBalance - shortfall in
         bn_div (currentBalance * fixedPointAdjustment) cumulativeBalance))))"

subsection \<open>Excess withdrawals\<close>

definition targetPctMultiplier :: "int \<Rightarrow> int" where
  \<comment> \<open>\<open>targetOverageBuffer.mul(toBNWei("0.95")).div(this.scalar)\<close>\<close>
  "targetPctMultiplier buffer = bn_quot (buffer * (95 * 10 ^ 16)) fixedPointAdjustment"

definition excessWithdrawThresholdPct :: "int \<Rightarrow> int \<Rightarrow> int" where
  \<comment> \<open>\<open>targetPct.mul(targetPctMultiplier).div(this.scalar)\<close>\<close>
  "excessWithdrawThresholdPct target buffer =
     bn_quot (target * targetPctMultiplier buffer) fixedPointAdjustment"

definition maxL2WithdrawalVolume :: "int \<Rightarrow> int \<Rightarrow> int \<Rightarrow> int" where
  \<comment> \<open>\<open>excessWithdrawThresholdPct.sub(targetPct).mul(cumulativeBalanceInL2TokenDecimals).div(this.scalar)\<close>\<close>
  "maxL2WithdrawalVolume target buffer cumulativeInL2Decimals =
     bn_quot ((excessWithdrawThresholdPct target buffer - target) * cumulativeInL2Decimals)
       fixedPointAdjustment"

definition planExcessWithdrawal ::
  "InventoryEnv \<Rightarrow> InventoryClient \<Rightarrow> address \<Rightarrow> nat \<Rightarrow> int \<Rightarrow> chainId \<Rightarrow> address
     \<Rightarrow> error + int option" where
  \<comment> \<open>the body of the innermost loop of \<open>withdrawExcessBalances\<close> for one L2 token:
      \<open>Some amount\<close> is the withdrawal pushed to \<open>withdrawalsRequired\<close>, \<open>None\<close> a return
      without one\<close>
  "planExcessWithdrawal env cl l1Token l1Decimals cumulativeBalance chain l2Token =
     bindE (decimalsE (l2TokenDecimals env l2Token chain)) (\<lambda>l2Decimals.
     bindE (getTokenConfig cl l1Token chain (Some l2Token)) (\<lambda>found.
       case found of
         None \<Rightarrow> Inr None
       | Some cfg \<Rightarrow>
           (case withdrawExcessPeriod cfg of
              None \<Rightarrow> Inr None
            | Some period \<Rightarrow>
                (case isSupportedL2Bridge env chain l1Token of
                   None \<Rightarrow> Inl TypeError
                 | Some False \<Rightarrow> Inr None
                 | Some True \<Rightarrow>
                     bindE (getCurrentAllocationPct env cl l1Token chain l2Token) (\<lambda>currentAllocPct.
                       case targetOverageBuffer cfg of
                         None \<Rightarrow> Inl TypeError
                       | Some buffer \<Rightarrow>
                           if \<not> (targetPctMultiplier buffer \<ge> toBNWei 1) then Inl AssertionError
                           else
                             let threshold = excessWithdrawThresholdPct (targetPct cfg) buffer;
                                 shouldWithdrawExcess = (currentAllocPct \<ge> threshold);
                                 withdrawPct = currentAllocPct - targetPct cfg;
                                 cumulativeInL2Decimals =
                                   ConvertDecimals l1Decimals l2Decimals cumulativeBalance;
                                 desiredWithdrawalAmount =
                                   bn_quot (cumulativeInL2Decimals * withdrawPct) fixedPointAdjustment
                             in
                             if \<not> shouldWithdrawExcess then Inr None
                             else
                               (case getL2PendingWithdrawalAmount env period chain l2Token of
                                  None \<Rightarrow> Inl TypeError
                                | Some pendingWithdrawalAmount \<Rightarrow>
                                    if pendingWithdrawalAmount
                                         \<ge> maxL2WithdrawalVolume (targetPct cfg) buffer cumulativeInL2Decimals
                                    then Inr None
                                    else Inr (Some desiredWithdrawalAmount)))))))"

definition withdrawalsForChain ::
  "InventoryEnv \<Rightarrow> InventoryClient \<Rightarrow> address \<Rightarrow> nat \<Rightarrow> int \<Rightarrow> chainId
     \<Rightarrow> error + (chainId \<times> address \<times> int) list" where
  "withdrawalsForChain env cl l1Token l1Decimals cumulativeBalance chain =
     (if chain = hubChainId env \<or> \<not> l1TokenEnabledForChain cl l1Token chain then Inr []
      else
        bindE (getRemoteTokensForL1Token env cl l1Token chain) (\<lambda>l2Tokens.
        bindE (mapE (\<lambda>l2. bindE (planExcessWithdrawal env cl l1Token l1Decimals cumulativeBalance chain l2)
                             (\<lambda>planned. Inr (case planned of None \<Rightarrow> []
                                               | Some amount \<Rightarrow> [(chain, l2, amount)])))
                    l2Tokens) (\<lambda>planned. Inr (concat planned))))"

definition withdrawalsRequired ::
  "InventoryEnv \<Rightarrow> InventoryClient \<Rightarrow> error + (chainId \<times> address \<times> int) list" where
  \<comment> \<open>the planning part of \<open>withdrawExcessBalances\<close>: the withdrawals collected before any
      transaction is submitted, as (chain, L2 token, amount) in the order of the loops\<close>
  "withdrawalsRequired env cl =
     (if \<not> isInventoryManagementEnabled cl then Inr []
      else
        bindE (mapE (\<lambda>l1Token.
                 bindE (decimalsE (l1TokenDecimals env l1Token)) (\<lambda>l1Decimals.
                 bindE (getCumulativeBalance env cl l1Token) (\<lambda>cumulativeBalance.
                   if cumulativeBalance = 0 then Inr []
                   else
                     bindE (mapE (withdrawalsForChain env cl l1Token l1Decimals cumulativeBalance)
                                 (getEnabledL2Chains env cl))
                       (\<lambda>perChain. Inr (concat perChain)))))
               (getL1Tokens cl))
          (\<lambda>perToken. Inr (concat perToken)))"

subsection \<open>Repayment chain selection\<close>

text \<open>
  The collaborators of the selector: the deposit classification utilities, the hub pool client's
  routing predicates, the bundle data client's refunds and the validated running balances.
  \<open>getL1TokenAddress\<close> and \<open>getL2TokenForL1TokenAtBlock\<close> throw where they are \<open>None\<close>, and a
  refund query that is rejected is \<open>None\<close>. A \<open>CombinedRefunds\<close> object gives, for a chain and a
  token, the refund of each relayer.
\<close>

record RepaymentEnv =
  invalidOutputToken :: "Deposit \<Rightarrow> bool"
  forcesOriginOtherwise :: "Deposit \<Rightarrow> bool"
  repaymentChainCanBeQuicklyRebalanced :: "Deposit \<Rightarrow> bool"
  areTokensEquivalent :: "address \<Rightarrow> chainId \<Rightarrow> address \<Rightarrow> chainId \<Rightarrow> bool"
  getL1TokenAddress :: "address \<Rightarrow> chainId \<Rightarrow> address option"
  l2TokenHasPoolRebalanceRoute :: "address \<Rightarrow> chainId \<Rightarrow> bool"
  getL1TokenForL2TokenAtBlock :: "address \<Rightarrow> chainId \<Rightarrow> address"
  l2TokenEnabledForL1TokenAtBlock :: "address \<Rightarrow> chainId \<Rightarrow> bool"
  l2TokenEnabledForL1Token :: "address \<Rightarrow> chainId \<Rightarrow> bool"
  SLOW_WITHDRAWAL_CHAINS :: "chainId list"
  getPendingRefundsFromValidBundles :: "CombinedRefunds list option"
  getNextBundleRefunds :: "CombinedRefunds list option"
  getTotalRefund :: "CombinedRefunds list \<Rightarrow> chainId \<Rightarrow> address \<Rightarrow> int"
  getChainIdIndicesForBlock :: "chainId list"
  getRunningBalanceBeforeBlockForChain :: "chainId \<Rightarrow> address \<Rightarrow> int"
  getLatestExecutedRootBundleContainingL1Token :: "chainId \<Rightarrow> address \<Rightarrow> nat option"
  getLatestFullyExecutedRootBundle :: "nat \<Rightarrow> int list option"
  getL2TokenForL1TokenAtBlock :: "address \<Rightarrow> chainId \<Rightarrow> address option"
  getUpcomingDepositAmount :: "chainId \<Rightarrow> address \<Rightarrow> int \<Rightarrow> int"
  getSpokeTargetBalance :: "address \<Rightarrow> chainId \<Rightarrow> int"

fun objectInsert :: "chainId \<Rightarrow> 'a \<Rightarrow> (chainId \<times> 'a) list \<Rightarrow> (chainId \<times> 'a) list" where
  "objectInsert k v [] = [(k, v)]"
| "objectInsert k v ((k', v') # rest) =
     (if k = k' then (k, v) # rest
      else if k < k' then (k, v) # (k', v') # rest
      else (k', v') # objectInsert k v rest)"

definition objectFromEntries :: "(chainId \<times> 'a) list \<Rightarrow> (chainId \<times> 'a) list" where
  \<comment> \<open>the entries of \<open>Object.fromEntries(es)\<close> as \<open>Object.entries\<close> reads them back: one entry
      per key, the last written value, integer keys in ascending order\<close>
  "objectFromEntries es = foldl (\<lambda>obj (k, v). objectInsert k v obj) [] es"

definition depositForcesOriginChainRepayment :: "RepaymentEnv \<Rightarrow> Deposit \<Rightarrow> bool" where
  \<comment> \<open>Modelled from the spec: the utility is not part of the sources; "\<open>fromLiteChain\<close> forces
      repayment on origin", and the spec names it as one example of a deposit that forces origin
      repayment, so any other ground is a parameter\<close>
  "depositForcesOriginChainRepayment renv deposit =
     (fromLiteChain deposit \<or> forcesOriginOtherwise renv deposit)"

definition getAllBundleRefunds :: "RepaymentEnv \<Rightarrow> error + CombinedRefunds list" where
  "getAllBundleRefunds renv =
     (case getPendingRefundsFromValidBundles renv of
        None \<Rightarrow> Inl TypeError
      | Some pendingRefunds \<Rightarrow>
          (case getNextBundleRefunds renv of
             None \<Rightarrow> Inl TypeError
           | Some nextBundleRefunds \<Rightarrow> Inr (pendingRefunds @ nextBundleRefunds)))"

definition getBundleRefunds ::
  "InventoryEnv \<Rightarrow> RepaymentEnv \<Rightarrow> InventoryClient \<Rightarrow> address \<Rightarrow> error + (chainId \<times> int) list" where
  "getBundleRefunds env renv cl l1Token =
     bindE (decimalsE (l1TokenDecimals env l1Token)) (\<lambda>l1Decimals.
     bindE (getAllBundleRefunds renv) (\<lambda>refundsToConsider.
     bindE (mapE (\<lambda>chain.
              case getRemoteTokenForL1Token env l1Token chain of
                None \<Rightarrow> Inr (chain, 0)
              | Some destinationToken \<Rightarrow>
                  bindE (decimalsE (l2TokenDecimals env destinationToken chain)) (\<lambda>l2Decimals.
                    Inr (chain, ConvertDecimals l2Decimals l1Decimals
                                  (getTotalRefund renv refundsToConsider chain destinationToken))))
            (getEnabledChains cl))
       (\<lambda>entries. Inr (objectFromEntries entries))))"

definition canTakeDestinationChainRepayment :: "RepaymentEnv \<Rightarrow> Deposit \<Rightarrow> bool" where
  "canTakeDestinationChainRepayment renv deposit =
     (if depositForcesOriginChainRepayment renv deposit then False
      else if \<not> l2TokenHasPoolRebalanceRoute renv (inputToken deposit) (originChainId deposit) then False
      else l2TokenEnabledForL1TokenAtBlock renv
             (getL1TokenForL2TokenAtBlock renv (inputToken deposit) (originChainId deposit))
             (destinationChainId deposit))"

definition getSlowWithdrawalRepaymentChains ::
  "RepaymentEnv \<Rightarrow> InventoryClient \<Rightarrow> address \<Rightarrow> chainId list" where
  "getSlowWithdrawalRepaymentChains renv cl l1Token =
     filter (\<lambda>chain. l1TokenEnabledForChain cl l1Token chain \<and> l2TokenEnabledForL1Token renv l1Token chain)
       (SLOW_WITHDRAWAL_CHAINS renv)"

definition setAdd :: "chainId \<Rightarrow> chainId list \<Rightarrow> chainId list" where
  \<comment> \<open>\<open>Set.add\<close>, the set kept in insertion order\<close>
  "setAdd c cs = (if c \<in> set cs then cs else cs @ [c])"

definition getPossibleRepaymentChainIds ::
  "InventoryEnv \<Rightarrow> RepaymentEnv \<Rightarrow> InventoryClient \<Rightarrow> Deposit \<Rightarrow> error + chainId list" where
  "getPossibleRepaymentChainIds env renv cl deposit =
     (let chainIds0 = [originChainId deposit] in
      if depositForcesOriginChainRepayment renv deposit then Inr chainIds0
      else
        let chainIds1 = (if canTakeDestinationChainRepayment renv deposit
                         then setAdd (destinationChainId deposit) chainIds0 else chainIds0) in
        bindE (if isInventoryManagementEnabled cl then
                 (case getL1TokenAddress renv (inputToken deposit) (originChainId deposit) of
                    None \<Rightarrow> Inl UnknownToken
                  | Some l1Token \<Rightarrow>
                      Inr (foldl (\<lambda>ids chain. if l2TokenEnabledForL1Token renv l1Token chain
                                                then setAdd chain ids else ids)
                             chainIds1 (getSlowWithdrawalRepaymentChains renv cl l1Token)))
               else Inr chainIds1)
          (\<lambda>chainIds2. Inr (setAdd (hubChainId env) chainIds2)))"

definition validateOutputToken :: "RepaymentEnv \<Rightarrow> Deposit \<Rightarrow> bool" where
  "validateOutputToken renv deposit =
     (if areTokensEquivalent renv (inputToken deposit) (originChainId deposit)
           (outputToken deposit) (destinationChainId deposit) then True
      else
        (case getL1TokenAddress renv (inputToken deposit) (originChainId deposit) of
           None \<Rightarrow> False
         | Some l1TokenMappedToInputToken \<Rightarrow>
             (case getL1TokenAddress renv (outputToken deposit) (destinationChainId deposit) of
                None \<Rightarrow> False
              | Some l1TokenMappedToOutputToken \<Rightarrow>
                  l1TokenMappedToInputToken = l1TokenMappedToOutputToken)))"

fun indexOf :: "chainId list \<Rightarrow> chainId \<Rightarrow> nat option" where
  "indexOf [] c = None"
| "indexOf (x # xs) c = (if x = c then Some 0 else map_option Suc (indexOf xs c))"

definition latestRunningBalance ::
  "InventoryEnv \<Rightarrow> RepaymentEnv \<Rightarrow> address \<Rightarrow> nat \<Rightarrow> CombinedRefunds list \<Rightarrow> chainId
     \<Rightarrow> error + (chainId \<times> int)" where
  \<comment> \<open>the body of the map in \<open>_getLatestRunningBalances\<close> for one chain: the absolute value of
      a negative latest running balance, else 0\<close>
  "latestRunningBalance env renv l1Token l1Decimals allBundleRefunds chain =
     (let chainIdIndex = indexOf (getChainIdIndicesForBlock renv) chain;
          lastValidatedRunningBalance = getRunningBalanceBeforeBlockForChain renv chain l1Token;
          latestValidatedBundle = getLatestExecutedRootBundleContainingL1Token renv chain l1Token
      in
      case getL2TokenForL1TokenAtBlock renv l1Token chain of
        None \<Rightarrow> Inl UnknownToken
      | Some l2Token \<Rightarrow>
          bindE (decimalsE (l2TokenDecimals env l2Token chain)) (\<lambda>l2Decimals.
          bindE (case latestValidatedBundle of
                   None \<Rightarrow> Inr 0
                 | Some blockNumber \<Rightarrow>
                     (case getLatestFullyExecutedRootBundle renv blockNumber of
                        None \<Rightarrow> Inr 0
                      | Some bundleEvaluationBlockNumbers \<Rightarrow>
                          (case chainIdIndex of
                             None \<Rightarrow> Inl TypeError
                           | Some i \<Rightarrow>
                               if i < length bundleEvaluationBlockNumbers
                               then Inr (bundleEvaluationBlockNumbers ! i)
                               else Inl TypeError)))
            (\<lambda>lastValidatedBundleEndBlock.
          let upcomingDeposits =
                ConvertDecimals l2Decimals l1Decimals
                  (getUpcomingDepositAmount renv chain l2Token lastValidatedBundleEndBlock);
              upcomingRefundEntries =
                (case allBundleRefunds of
                   [] \<Rightarrow> []
                 | _ \<Rightarrow> (case last allBundleRefunds chain l2Token of
                           None \<Rightarrow> []
                         | Some byRelayer \<Rightarrow> map snd byRelayer));
              upcomingRefunds =
                foldl (\<lambda>acc curr. acc + ConvertDecimals l2Decimals l1Decimals curr) 0
                  upcomingRefundEntries;
              latest = lastValidatedRunningBalance - upcomingDeposits + upcomingRefunds;
              absLatestRunningBalance = (if latest < 0 then \<bar>latest\<bar> else 0)
          in Inr (chain, absLatestRunningBalance))))"

definition priv_getLatestRunningBalances ::
  "InventoryEnv \<Rightarrow> RepaymentEnv \<Rightarrow> address \<Rightarrow> chainId list \<Rightarrow> error + (chainId \<times> int) list" where
  \<comment> \<open>\<open>_getLatestRunningBalances\<close>\<close>
  "priv_getLatestRunningBalances env renv l1Token chainsToEvaluate =
     bindE (decimalsE (l1TokenDecimals env l1Token)) (\<lambda>l1Decimals.
     bindE (mapE (\<lambda>chain.
              bindE (getAllBundleRefunds renv) (\<lambda>allBundleRefunds.
                latestRunningBalance env renv l1Token l1Decimals allBundleRefunds chain))
            chainsToEvaluate)
       (\<lambda>entries. Inr (objectFromEntries entries)))"

definition getExcessRunningBalancePcts ::
  "InventoryEnv \<Rightarrow> RepaymentEnv \<Rightarrow> address \<Rightarrow> int \<Rightarrow> chainId list \<Rightarrow> error + (chainId \<times> int) list" where
  "getExcessRunningBalancePcts env renv l1Token refundAmountInL1TokenDecimals chainsToEvaluate =
     bindE (priv_getLatestRunningBalances env renv l1Token chainsToEvaluate) (\<lambda>excessRunningBalances.
       priv_getExcessRunningBalancePcts (getSpokeTargetBalance renv) excessRunningBalances l1Token
         refundAmountInL1TokenDecimals)"

definition chainsWithExcessSpokeBalances :: "(chainId \<times> int) list \<Rightarrow> chainId list" where
  \<comment> \<open>the entries with a positive percentage, sorted by descending percentage (the sort is
      stable)\<close>
  "chainsWithExcessSpokeBalances pcts =
     map fst (sort_key (\<lambda>(chain, pct). - pct) (filter (\<lambda>(chain, pct). pct > 0) pcts))"

definition evaluateRepaymentChain ::
  "InventoryEnv \<Rightarrow> RepaymentEnv \<Rightarrow> InventoryClient \<Rightarrow> Deposit \<Rightarrow> address \<Rightarrow> nat \<Rightarrow> int
     \<Rightarrow> (chainId \<times> int) list \<Rightarrow> int \<Rightarrow> int \<Rightarrow> chainId \<Rightarrow> error + bool" where
  \<comment> \<open>the body of the loop over \<open>chainsToEvaluate\<close>: whether the chain is pushed to
      \<open>eligibleRefundChains\<close>\<close>
  "evaluateRepaymentChain env renv cl deposit l1Token l1Decimals inputAmountInL1TokenDecimals
       totalRefundsPerChain cumulativeRefunds cumulativeVirtualBalance chain =
     (if \<not> l1TokenEnabledForChain cl l1Token chain then Inl AssertionError
      else
        case getRemoteTokenForL1Token env l1Token chain of
          None \<Rightarrow> Inl TypeError
        | Some repaymentToken \<Rightarrow>
            if chain \<noteq> originChainId deposit \<and> \<not> l2TokenHasPoolRebalanceRoute renv repaymentToken chain
            then Inl AssertionError
            else
              bindE (decimalsE (l2TokenDecimals env repaymentToken chain)) (\<lambda>l2Decimals.
              let chainShortfall = ConvertDecimals l2Decimals l1Decimals
                                     (getShortfallTotalRequirement env chain repaymentToken) in
              bindE (getBalanceOnChain env cl chain l1Token (Some repaymentToken)) (\<lambda>chainVirtualBalance.
              let chainVirtualBalanceWithShortfall = chainVirtualBalance - chainShortfall;
                  postRelay =
                    (if chain = destinationChainId deposit
                        \<and> areTokensEquivalent renv (inputToken deposit) (originChainId deposit)
                              (outputToken deposit) (destinationChainId deposit)
                     then chainVirtualBalanceWithShortfall
                     else chainVirtualBalanceWithShortfall + inputAmountInL1TokenDecimals);
                  postRelayWithRefunds =
                    postRelay + (case map_of totalRefundsPerChain chain of Some r \<Rightarrow> r | None \<Rightarrow> 0);
                  cumulativeVirtualBalancePostRefunds = cumulativeVirtualBalance + cumulativeRefunds
              in
              bindE (bn_div (postRelayWithRefunds * fixedPointAdjustment) cumulativeVirtualBalancePostRefunds)
                (\<lambda>expectedPostRelayAllocation.
              bindE (getTokenConfig cl l1Token chain (Some repaymentToken)) (\<lambda>found.
                case found of
                  None \<Rightarrow> Inr (chain = destinationChainId deposit)
                | Some cfg \<Rightarrow>
                    let buffer = (case targetOverageBuffer cfg of
                                    Some b \<Rightarrow> b | None \<Rightarrow> DEFAULT_TOKEN_OVERAGE);
                        effectiveTargetPct =
                          (if toLiteChain deposit \<and> chain = destinationChainId deposit
                           then targetPct cfg
                           else bn_quot (targetPct cfg * buffer) fixedPointAdjustment)
                    in Inr (expectedPostRelayAllocation \<le> effectiveTargetPct))))))"

fun evaluateRepaymentChains :: "(chainId \<Rightarrow> error + bool) \<Rightarrow> chainId list \<Rightarrow> chainId list
     \<Rightarrow> error + chainId list" where
  \<comment> \<open>the loop: \<open>eligible\<close> is \<open>eligibleRefundChains\<close> so far\<close>
  "evaluateRepaymentChains evaluate [] eligible = Inr eligible"
| "evaluateRepaymentChains evaluate (chain # rest) eligible =
     (case evaluate chain of
        Inl e \<Rightarrow> Inl e
      | Inr push \<Rightarrow>
          evaluateRepaymentChains evaluate rest (if push then eligible @ [chain] else eligible))"

definition chainsToEvaluateAfter ::
  "RepaymentEnv \<Rightarrow> InventoryClient \<Rightarrow> Deposit \<Rightarrow> address \<Rightarrow> chainId \<Rightarrow> chainId list \<Rightarrow> chainId list" where
  \<comment> \<open>\<open>chainsToEvaluate\<close> after the three conditional pushes that follow the slow-withdrawal
      chains \<open>chains0\<close>: origin first for a deposit to a lite chain, then destination, then
      origin\<close>
  "chainsToEvaluateAfter renv cl deposit l1Token hub chains0 =
     (let origin = originChainId deposit;
          destination = destinationChainId deposit;
          chains1 = (if toLiteChain deposit \<and> origin \<notin> set chains0
                        \<and> l1TokenEnabledForChain cl l1Token origin
                     then chains0 @ [origin] else chains0);
          chains2 = (if canTakeDestinationChainRepayment renv deposit
                        \<and> destination \<notin> set chains1
                        \<and> l1TokenEnabledForChain cl l1Token destination
                     then chains1 @ [destination] else chains1)
      in if origin \<notin> set chains2 \<and> origin \<noteq> hub \<and> l1TokenEnabledForChain cl l1Token origin
         then chains2 @ [origin] else chains2)"

definition refundChainsAfterLoop ::
  "RepaymentEnv \<Rightarrow> Deposit \<Rightarrow> bool \<Rightarrow> chainId \<Rightarrow> chainId list \<Rightarrow> chainId list" where
  \<comment> \<open>the statements after the loop: the lite-chain refusal and the hub chain fallback\<close>
  "refundChainsAfterLoop renv deposit forceOriginRepayment hub eligibleRefundChains =
     (if forceOriginRepayment
         \<and> (length eligibleRefundChains \<noteq> 1 \<or> originChainId deposit \<notin> set eligibleRefundChains)
      then []
      else if \<not> depositForcesOriginChainRepayment renv deposit \<and> hub \<notin> set eligibleRefundChains
      then eligibleRefundChains @ [hub]
      else eligibleRefundChains)"

definition determineRefundChainId ::
  "InventoryEnv \<Rightarrow> RepaymentEnv \<Rightarrow> InventoryClient \<Rightarrow> Deposit \<Rightarrow> address option
     \<Rightarrow> error + chainId list" where
  "determineRefundChainId env renv cl deposit l1TokenGiven =
     (if invalidOutputToken renv deposit then Inr []
      else if \<not> isInventoryManagementEnabled cl then
        Inr [if \<not> canTakeDestinationChainRepayment renv deposit then originChainId deposit
             else destinationChainId deposit]
      else if \<not> validateOutputToken renv deposit then Inl UnexpectedOutputToken
      else if depositForcesOriginChainRepayment renv deposit
              \<and> repaymentChainCanBeQuicklyRebalanced renv deposit
      then Inr [originChainId deposit]
      else
        bindE (case l1TokenGiven of
                 Some t \<Rightarrow> Inr t
               | None \<Rightarrow> (case getL1TokenAddress renv (inputToken deposit) (originChainId deposit) of
                            None \<Rightarrow> Inl UnknownToken | Some t \<Rightarrow> Inr t)) (\<lambda>l1Token.
        bindE (decimalsE (l1TokenDecimals env l1Token)) (\<lambda>l1Decimals.
        bindE (decimalsE (l2TokenDecimals env (inputToken deposit) (originChainId deposit)))
          (\<lambda>inputTokenDecimals.
        bindE (getBundleRefunds env renv cl l1Token) (\<lambda>totalRefundsPerChain.
        bindE (getCumulativeBalance env cl l1Token) (\<lambda>cumulativeVirtualBalance.
        bindE (if \<not> depositForcesOriginChainRepayment renv deposit \<and> prioritizeLpUtilization cl then
                 bindE (getExcessRunningBalancePcts env renv l1Token
                          (ConvertDecimals inputTokenDecimals l1Decimals (inputAmount deposit))
                          (getSlowWithdrawalRepaymentChains renv cl l1Token))
                   (\<lambda>pcts. Inr (chainsWithExcessSpokeBalances pcts))
               else Inr []) (\<lambda>chains0.
        bindE (getPossibleRepaymentChainIds env renv cl deposit) (\<lambda>possibleRepaymentChainIds.
        if list_ex (\<lambda>chain. chain \<notin> set possibleRepaymentChainIds)
             (chainsToEvaluateAfter renv cl deposit l1Token (hubChainId env) chains0)
        then Inl RepaymentChainsDisagree
        else
          bindE (evaluateRepaymentChains
                   (evaluateRepaymentChain env renv cl deposit l1Token l1Decimals
                      (ConvertDecimals inputTokenDecimals l1Decimals (inputAmount deposit))
                      totalRefundsPerChain (sum_list (map snd totalRefundsPerChain))
                      cumulativeVirtualBalance)
                   (chainsToEvaluateAfter renv cl deposit l1Token (hubChainId env) chains0) [])
            (\<lambda>eligibleRefundChains.
               Inr (refundChainsAfterLoop renv deposit
                      (depositForcesOriginChainRepayment renv deposit) (hubChainId env)
                      eligibleRefundChains))))))))))"

section \<open>Bridge finalization matcher\<close>

text \<open>
  \<open>LineaWethBridge.queryL2BridgeFinalizationEvents\<close>. A log carries its on-chain coordinates;
  a \<open>MessageSent\<close> log of the hub chain's message service adds the recipient, the value and the
  message hash, a \<open>MessageClaimed\<close> log of the destination chain adds the message hash. Field
  names of the contract events begin with an underscore in the source.
\<close>

record EventLog =
  blockNumber :: int
  transactionIndex :: int
  logIndex :: int
  transactionHash :: string

record MessageSent = EventLog +
  sent_to :: address
  sent_value :: int
  sent_messageHash :: string

record MessageClaimed = EventLog +
  claimed_messageHash :: string

record BridgeEvent =
  amount :: int
  blockNumber :: int
  txnIndex :: int
  logIndex :: int
  txnRef :: string

record BridgeEnv =
  l2BlockTimestamp :: "int \<Rightarrow> int option"
  getBlockForTimestamp :: "int \<Rightarrow> int option"
  l1MessageSentLogs :: "MessageSent list"
  queryMessageClaimed :: "string list \<Rightarrow> int \<Rightarrow> int \<Rightarrow> MessageClaimed list"
  resolveL2TokenAddress :: "address \<Rightarrow> address"

text \<open>
  \<open>l2BlockTimestamp n\<close> is \<open>l2Provider.getBlock(n).timestamp\<close> and \<open>getBlockForTimestamp t\<close> the
  hub chain block found for the timestamp \<open>t\<close>; both are \<open>None\<close> where the lookup fails.
  \<open>l1MessageSentLogs\<close> is the log of the hub chain's message service, in chain order.
  \<open>queryMessageClaimed hashes from to\<close> is what
  \<open>paginatedEventQuery(l2Bridge, l2Bridge.filters.MessageClaimed(hashes), eventConfig)\<close> answers:
  \<open>paginatedEventQuery\<close> and the node behind it are not part of the sources, so the answer of the
  destination chain to a list of message hashes is a parameter, and nothing is assumed about it.
\<close>

definition queryMessageSent :: "BridgeEnv \<Rightarrow> address \<Rightarrow> int \<Rightarrow> int \<Rightarrow> MessageSent list" where
  \<comment> \<open>Modelled from the spec: \<open>paginatedEventQuery\<close> is not part of the sources; "query
      hub-chain initiation events in the translated range filtered by recipient"\<close>
  "queryMessageSent env toAddress fromBlock toBlock =
     filter (\<lambda>e. sent_to e = toAddress
                 \<and> fromBlock \<le> EventLog.blockNumber e \<and> EventLog.blockNumber e \<le> toBlock)
       (l1MessageSentLogs env)"

definition processEvent :: "MessageSent \<Rightarrow> BridgeEvent" where
  \<comment> \<open>Modelled from the spec: \<open>processEvent(event, "_value")\<close> is not part of the sources; the
      amount is the event's value, with the event's coordinates\<close>
  "processEvent e =
     \<lparr> amount = sent_value e,
       BridgeEvent.blockNumber = EventLog.blockNumber e,
       txnIndex = transactionIndex e,
       BridgeEvent.logIndex = EventLog.logIndex e,
       txnRef = transactionHash e \<rparr>"

definition matchFinalized :: "MessageSent list \<Rightarrow> MessageClaimed \<Rightarrow> BridgeEvent option" where
  \<comment> \<open>the body of the map over the finalization events: \<open>undefined\<close> is \<open>None\<close>\<close>
  "matchFinalized initiatedQueryResult finalized =
     (case find (\<lambda>initiated. sent_messageHash initiated = claimed_messageHash finalized)
             initiatedQueryResult of
        None \<Rightarrow> None
      | Some queryEvent \<Rightarrow>
          Some ((processEvent queryEvent)
                  \<lparr> BridgeEvent.blockNumber := EventLog.blockNumber finalized,
                    txnIndex := transactionIndex finalized,
                    BridgeEvent.logIndex := EventLog.logIndex finalized,
                    txnRef := transactionHash finalized \<rparr>))"

definition queryL2BridgeFinalizationEvents ::
  "BridgeEnv \<Rightarrow> address \<Rightarrow> address \<Rightarrow> address \<Rightarrow> int \<Rightarrow> int
     \<Rightarrow> error + (address \<times> BridgeEvent list) list" where
  \<comment> \<open>the result object as its entries: no entry after the early exit, else the one entry of
      the L2 token\<close>
  "queryL2BridgeFinalizationEvents env l1Token fromAddress toAddress eventFrom eventTo =
     (case l2BlockTimestamp env eventFrom of
        None \<Rightarrow> Inl TypeError
      | Some fromTimestamp \<Rightarrow>
     (case l2BlockTimestamp env eventTo of
        None \<Rightarrow> Inl TypeError
      | Some toTimestamp \<Rightarrow>
     (case getBlockForTimestamp env fromTimestamp of
        None \<Rightarrow> Inl TypeError
      | Some l1FromBlock \<Rightarrow>
     (case getBlockForTimestamp env toTimestamp of
        None \<Rightarrow> Inl TypeError
      | Some l1ToBlock \<Rightarrow>
          let initiatedQueryResult = queryMessageSent env toAddress l1FromBlock l1ToBlock in
          if length initiatedQueryResult = 0 then Inr []
          else
            let internalMessageHashes =
                  map sent_messageHash (filter (\<lambda>e. sent_value e > 0) initiatedQueryResult);
                events = queryMessageClaimed env internalMessageHashes eventFrom eventTo;
                matchedEvents = List.map_filter (matchFinalized initiatedQueryResult) events
            in Inr [(resolveL2TokenAddress env l1Token, matchedEvents)]))))"

definition emittedEvents :: "(address \<times> BridgeEvent list) list \<Rightarrow> BridgeEvent list" where
  \<comment> \<open>all the events of a result object\<close>
  "emittedEvents result = concat (map snd result)"

definition eventCoordinates :: "BridgeEvent \<Rightarrow> int \<times> int \<times> int \<times> string" where
  "eventCoordinates e =
     (BridgeEvent.blockNumber e, txnIndex e, BridgeEvent.logIndex e, txnRef e)"

definition logCoordinates :: "MessageClaimed \<Rightarrow> int \<times> int \<times> int \<times> string" where
  "logCoordinates e =
     (EventLog.blockNumber e, transactionIndex e, EventLog.logIndex e, transactionHash e)"

definition nodeMessageClaimedQuery ::
  "MessageClaimed list \<Rightarrow> string list \<Rightarrow> int \<Rightarrow> int \<Rightarrow> MessageClaimed list" where
  \<comment> \<open>a node answering a log query over the given logs: the block range is inclusive, and a
      topic position whose list of alternatives is empty constrains nothing\<close>
  "nodeMessageClaimedQuery logs messageHashes fromBlock toBlock =
     filter (\<lambda>e. (messageHashes = [] \<or> claimed_messageHash e \<in> set messageHashes)
                 \<and> fromBlock \<le> EventLog.blockNumber e \<and> EventLog.blockNumber e \<le> toBlock)
       logs"

definition sample_bridge_env :: BridgeEnv where
  \<comment> \<open>three initiations to the relayer in the hub window, the first with value 0, and three
      finalizations, the last without an initiation; L2 block \<open>n\<close> is stamped \<open>12 * n\<close> and the
      hub block for a timestamp \<open>t\<close> is \<open>t div 12\<close>\<close>
  "sample_bridge_env =
     \<lparr> l2BlockTimestamp = (\<lambda>n. Some (12 * n)),
       getBlockForTimestamp = (\<lambda>t. Some (t div 12)),
       l1MessageSentLogs =
         [\<lparr> EventLog.blockNumber = 101, transactionIndex = 0, EventLog.logIndex = 0,
             transactionHash = ''0xa1'', sent_to = ''0xRELAYER'', sent_value = 0,
             sent_messageHash = ''h1'' \<rparr>,
          \<lparr> EventLog.blockNumber = 102, transactionIndex = 1, EventLog.logIndex = 3,
             transactionHash = ''0xa2'', sent_to = ''0xRELAYER'', sent_value = 10,
             sent_messageHash = ''h2'' \<rparr>,
          \<lparr> EventLog.blockNumber = 103, transactionIndex = 2, EventLog.logIndex = 5,
             transactionHash = ''0xa3'', sent_to = ''0xRELAYER'', sent_value = 20,
             sent_messageHash = ''h3'' \<rparr>],
       queryMessageClaimed = nodeMessageClaimedQuery
         [\<lparr> EventLog.blockNumber = 110, transactionIndex = 4, EventLog.logIndex = 1,
             transactionHash = ''0xb2'', claimed_messageHash = ''h2'' \<rparr>,
          \<lparr> EventLog.blockNumber = 111, transactionIndex = 0, EventLog.logIndex = 2,
             transactionHash = ''0xb3'', claimed_messageHash = ''h3'' \<rparr>,
          \<lparr> EventLog.blockNumber = 112, transactionIndex = 7, EventLog.logIndex = 0,
             transactionHash = ''0xb4'', claimed_messageHash = ''h4'' \<rparr>,
          \<lparr> EventLog.blockNumber = 113, transactionIndex = 7, EventLog.logIndex = 0,
             transactionHash = ''0xb1'', claimed_messageHash = ''h1'' \<rparr>],
       resolveL2TokenAddress = (\<lambda>t. ''0xWETHlinea'') \<rparr>"

definition zero_value_bridge_env :: BridgeEnv where
  \<comment> \<open>the same chains when the only initiation to the recipient in the hub window is the
      zero-value message \<open>h1\<close>\<close>
  "zero_value_bridge_env =
     sample_bridge_env
       \<lparr> l1MessageSentLogs :=
           [\<lparr> EventLog.blockNumber = 101, transactionIndex = 0, EventLog.logIndex = 0,
               transactionHash = ''0xa1'', sent_to = ''0xRELAYER'', sent_value = 0,
               sent_messageHash = ''h1'' \<rparr>] \<rparr>"

section \<open>Sample inputs\<close>

text \<open>
  A hub on chain 1 and a spoke on chain 10; USDC has 6 decimals and costs 1 USD, the gas token
  costs 2000 USD. The simulator answers for deposits without a message and throws for any other.
\<close>

definition sample_env :: ProfitEnv where
  "sample_env = \<lparr> hubPoolChainId = 1,
     getNativeTokenSymbol = (\<lambda>c. Some ''ETH''),
     TOKEN_SYMBOLS_MAP = (\<lambda>s. if s = ''ETH'' then Some (18, \<lambda>c. if c = 1 then Some ''0xWETH'' else None)
                              else if s = ''USDC'' then Some (6, \<lambda>c. if c = 1 then Some ''0xUSDC'' else None)
                              else None),
     TOKEN_EQUIVALENCE_REMAPPING = (\<lambda>s. None),
     getTokenInfoForAddress = (\<lambda>a c. if a = ''0xUSDC'' then Some (''USDC'', 6) else None),
     getTokenInfo = (\<lambda>a c. if a = ''0xUSDC'' then Some (''USDC'', 6) else None),
     isAddress = (\<lambda>s. take 2 s = ''0x''),
     isSvmAddress = (\<lambda>s. False),
     getGasCosts = (\<lambda>d r. if message d = ''0x'' then
         Some \<lparr> TransactionCostEstimate.nativeGasCost = 100001,
                TransactionCostEstimate.tokenGasCost = 100001,
                TransactionCostEstimate.gasPrice = 1 \<rparr> else None),
     processEnv = (\<lambda>k. None),
     parseWei = (\<lambda>s. None),
     hubPoolL1Tokens = [''USDC''],
     getPricesByAddress = (\<lambda>as. None) \<rparr>"

definition sample_client :: "bool \<Rightarrow> int \<Rightarrow> ProfitClient" where
  "sample_client testnet minFee = \<lparr> defaultMinRelayerFeePct = minFee,
     ProfitClient.gasMultiplier = 15 * 10 ^ 17,
     gasMessageMultiplier = 2 * 10 ^ 18,
     ProfitClient.gasPadding = 15 * 10 ^ 17,
     relayerAddress = ''0xRELAYER'',
     enabledChainIds = [1, 10],
     additionalL1Tokens = [],
     isTestnet = testnet,
     minRelayerFees = (\<lambda>k. None),
     tokenSymbolMap = (\<lambda>s. if s = ''ETH'' then Some ''0xWETH'' else if s = ''USDC'' then Some ''0xUSDC'' else None),
     tokenPrices = (\<lambda>a. if a = ''0xWETH'' then Some (2000 * 10 ^ 18) else if a = ''0xUSDC'' then Some (10 ^ 18) else None),
     totalGasCosts = (\<lambda>c. None) \<rparr>"

definition sample_client_without_usdc_price :: ProfitClient where
  \<comment> \<open>a testnet client whose price cache holds no price for USDC\<close>
  "sample_client_without_usdc_price =
     (sample_client True 0)
       \<lparr> tokenPrices := (\<lambda>a. if a = ''0xWETH'' then Some (2000 * 10 ^ 18) else None) \<rparr>"

definition sample_deposit :: "int \<Rightarrow> string \<Rightarrow> Deposit" where
  "sample_deposit out msg = \<lparr> depositId = 7, originChainId = 1, destinationChainId = 10,
     inputToken = ''0xUSDC'', inputAmount = 100000000, outputToken = ''0xUSDC'',
     outputAmount = out, updatedOutputAmount = None, message = msg, updatedMessage = None,
     fromLiteChain = False, toLiteChain = False \<rparr>"


text \<open>
  An inventory of one token, USDC, on the hub (chain 1) and on one spoke (chain 10), with a target
  of 50% on the spoke, the default overage buffer of 1.5 and excess withdrawals enabled.
\<close>

definition sample_config :: TokenBalanceConfig where
  "sample_config = \<lparr> targetOverageBuffer = Some (15 * 10 ^ 17), targetPct = 5 * 10 ^ 17,
     thresholdPct = 4 * 10 ^ 17, unwrapWethThreshold = None, unwrapWethTarget = None,
     withdrawExcessPeriod = Some 3600 \<rparr>"

definition sample_inventory_env :: "int \<Rightarrow> int \<Rightarrow> int \<Rightarrow> bool \<Rightarrow> InventoryEnv" where
  "sample_inventory_env hubBalance spokeBalance spokeShortfall bridgeSupported =
     \<lparr> hubChainId = 1,
       l1TokenDecimals = (\<lambda>t. if t = ''0xUSDC'' then Some 6 else None),
       l2TokenDecimals = (\<lambda>t c. if t = ''0xUSDC'' \<or> t = ''0xUSDCop'' then Some 6 else None),
       getBalance = (\<lambda>c t. if c = 1 \<and> t = ''0xUSDC'' then hubBalance
                            else if c = 10 \<and> t = ''0xUSDCop'' then spokeBalance else 0),
       getShortfallTotalRequirement = (\<lambda>c t. if c = 10 \<and> t = ''0xUSDCop'' then spokeShortfall else 0),
       getOutstandingCrossChainTransferAmount = (\<lambda>c l1 l2. 0),
       remoteTokenForL1Token = (\<lambda>t c. if t = ''0xUSDC'' \<and> c = 10 then Some ''0xUSDCop'' else None),
       isSupportedL2Bridge = (\<lambda>c t. Some bridgeSupported),
       getL2PendingWithdrawalAmount = (\<lambda>period c t. Some 0) \<rparr>"

definition sample_inventory_client :: InventoryClient where
  "sample_inventory_client =
     \<lparr> tokenConfig = Some [(''0xUSDC'', Direct (\<lambda>c. if c = 10 then Some sample_config else None))],
       chainIdList = [1, 10],
       prioritizeLpUtilization = True \<rparr>"

text \<open>
  The selector's collaborators for the sample inventory: every route exists, no refunds are
  pending, and chain 10 is the one slow-withdrawal chain, with no validated running balance.
\<close>

definition sample_repayment_env :: "bool \<Rightarrow> RepaymentEnv" where
  "sample_repayment_env quick =
     \<lparr> invalidOutputToken = (\<lambda>d. outputToken d = ''0x0''),
       forcesOriginOtherwise = (\<lambda>d. False),
       repaymentChainCanBeQuicklyRebalanced = (\<lambda>d. quick),
       areTokensEquivalent = (\<lambda>a c b d. True),
       getL1TokenAddress = (\<lambda>t c. Some ''0xUSDC''),
       l2TokenHasPoolRebalanceRoute = (\<lambda>t c. True),
       getL1TokenForL2TokenAtBlock = (\<lambda>t c. ''0xUSDC''),
       l2TokenEnabledForL1TokenAtBlock = (\<lambda>t c. True),
       l2TokenEnabledForL1Token = (\<lambda>t c. True),
       SLOW_WITHDRAWAL_CHAINS = [10],
       getPendingRefundsFromValidBundles = Some [],
       getNextBundleRefunds = Some [],
       getTotalRefund = (\<lambda>refunds c t. 0),
       getChainIdIndicesForBlock = [1, 10],
       getRunningBalanceBeforeBlockForChain = (\<lambda>c t. 0),
       getLatestExecutedRootBundleContainingL1Token = (\<lambda>c t. None),
       getLatestFullyExecutedRootBundle = (\<lambda>b. None),
       getL2TokenForL1TokenAtBlock = (\<lambda>t c. if c = 10 then Some ''0xUSDCop'' else Some ''0xUSDC''),
       getUpcomingDepositAmount = (\<lambda>c t b. 0),
       getSpokeTargetBalance = (\<lambda>t c. 0) \<rparr>"

definition sample_route_deposit :: "chainId \<Rightarrow> chainId \<Rightarrow> bool \<Rightarrow> Deposit" where
  "sample_route_deposit origin destination lite =
     \<lparr> depositId = 9, originChainId = origin, destinationChainId = destination,
       inputToken = (if origin = 1 then ''0xUSDC'' else ''0xUSDCop''), inputAmount = 10,
       outputToken = (if destination = 1 then ''0xUSDC'' else ''0xUSDCop''), outputAmount = 9,
       updatedOutputAmount = None, message = ''0x'', updatedMessage = None,
       fromLiteChain = lite, toLiteChain = False \<rparr>"

definition disabled_inventory_client :: InventoryClient where
  "disabled_inventory_client = \<lparr> tokenConfig = None, chainIdList = [1, 10], prioritizeLpUtilization = True \<rparr>"

section \<open>Theorems\<close>

lemma bindE_Inr_iff: "bindE m f = Inr y \<longleftrightarrow> (\<exists>x. m = Inr x \<and> f x = Inr y)"
  by (cases m) (simp_all add: bindE_def)

lemma bn_quot_nonneg: "0 \<le> a \<Longrightarrow> 0 < b \<Longrightarrow> bn_quot a b = a div b"
  by (cases "a = 0") (simp_all add: bn_quot_def)

lemma excessPct_spec: "excessPct T E R = Inr (excessPctSpec T E R)"
  by (simp add: excessPct_def excessPctSpec_def Let_def bn_div_def bn_quot_nonneg
      MAX_UINT_VAL_def uint256Max_def fixedPointAdjustment_def)

text \<open>
  C8: for every slow-withdrawal chain with excess running balance \<open>E\<close>, target \<open>T\<close> and refund
  amount \<open>R\<close>, the selector computes the excess percentage \<open>0\<close> when \<open>T \<ge> E - R\<close>, the
  saturation value \<open>MAX_UINT\<close> when \<open>T = 0\<close> and \<open>E - R > T\<close>, and
  \<open>((E - R) - T) * 10^18 / |T|\<close> otherwise; no entry raises an error.
\<close>

theorem getExcessRunningBalancePcts_formula:
  "priv_getExcessRunningBalancePcts spokeTarget ebs l1Token R =
     Inr (map (\<lambda>(chain, E). (chain, excessPctSpec (spokeTarget l1Token chain) E R)) ebs)"
  unfolding priv_getExcessRunningBalancePcts_def
  by (induction ebs) (auto simp: excessPct_spec)

lemma estimateFillCost_InrD:
  assumes "estimateFillCost env pc d = Inr cost"
  shows "\<not> gasFieldUnknown (TransactionCostEstimate.nativeGasCost (getTotalGasCost env pc d))"
    and "\<not> gasFieldUnknown (TransactionCostEstimate.tokenGasCost (getTotalGasCost env pc d))"
    and "FillCost.nativeGasCost cost =
           bn_quot (TransactionCostEstimate.nativeGasCost (getTotalGasCost env pc d)
                    * ProfitClient.gasPadding pc) fixedPointAdjustment"
    and "FillCost.tokenGasCost cost =
           bn_quot (bn_quot (TransactionCostEstimate.tokenGasCost (getTotalGasCost env pc d)
                             * ProfitClient.gasPadding pc) fixedPointAdjustment
                    * resolveGasMultiplier pc d) fixedPointAdjustment"
  using assms unfolding estimateFillCost_def bindE_def Let_def
  by (auto split: sum.splits prod.splits if_splits)

lemma newProfitClient_ranges:
  assumes "newProfitClient env enabled relayer defaultMin gasMult gasMsgMult gasPad additional = Inr pc"
  shows "10 ^ 18 \<le> ProfitClient.gasPadding pc \<and> ProfitClient.gasPadding pc \<le> 3 * 10 ^ 18
       \<and> 0 \<le> ProfitClient.gasMultiplier pc \<and> ProfitClient.gasMultiplier pc \<le> 4 * 10 ^ 18
       \<and> 0 \<le> gasMessageMultiplier pc \<and> gasMessageMultiplier pc \<le> 4 * 10 ^ 18"
  using assms unfolding newProfitClient_def toBNWei_def
  by (auto split: if_splits)

text \<open>
  C5, as the code has it: whenever gas estimation succeeds for a client whose padding and
  multipliers are not negative (the constructor admits no other), the final native cost is
  \<open>raw * gasPadding / 10^18\<close> and is never scaled by a multiplier, and the final token cost
  is the raw token cost padded and floored to an integer first and only then multiplied:
  \<open>((raw * gasPadding / 10^18) * gasMultiplier) / 10^18\<close>, both divisions flooring. The
  multiplier is the message multiplier exactly for deposits that carry a message.
\<close>

theorem estimateFillCost_scaling:
  assumes "estimateFillCost env pc d = Inr cost"
      and "0 \<le> ProfitClient.gasPadding pc"
      and "0 \<le> ProfitClient.gasMultiplier pc"
      and "0 \<le> gasMessageMultiplier pc"
  shows "FillCost.nativeGasCost cost =
           (TransactionCostEstimate.nativeGasCost (getTotalGasCost env pc d)
              * ProfitClient.gasPadding pc) div 10 ^ 18
       \<and> FillCost.tokenGasCost cost =
           ((TransactionCostEstimate.tokenGasCost (getTotalGasCost env pc d)
              * ProfitClient.gasPadding pc) div 10 ^ 18
            * (if isMessageEmpty (resolveDepositMessage d) then ProfitClient.gasMultiplier pc
               else gasMessageMultiplier pc)) div 10 ^ 18"
proof -
  let ?raw = "getTotalGasCost env pc d"
  let ?pad = "ProfitClient.gasPadding pc"
  let ?m = "resolveGasMultiplier pc d"
  have n: "0 < TransactionCostEstimate.nativeGasCost ?raw"
    and t: "0 < TransactionCostEstimate.tokenGasCost ?raw"
    using estimateFillCost_InrD(1,2)[OF assms(1)] by (simp_all add: gasFieldUnknown_def)
  have m: "0 \<le> ?m" using assms(3,4) by (simp add: resolveGasMultiplier_def)
  have fp: "(0::int) < fixedPointAdjustment" by (simp add: fixedPointAdjustment_def)
  have q1: "bn_quot (TransactionCostEstimate.nativeGasCost ?raw * ?pad) fixedPointAdjustment
              = (TransactionCostEstimate.nativeGasCost ?raw * ?pad) div fixedPointAdjustment"
    using n assms(2) fp by (intro bn_quot_nonneg) simp_all
  have q2: "bn_quot (TransactionCostEstimate.tokenGasCost ?raw * ?pad) fixedPointAdjustment
              = (TransactionCostEstimate.tokenGasCost ?raw * ?pad) div fixedPointAdjustment"
    using t assms(2) fp by (intro bn_quot_nonneg) simp_all
  have p: "0 \<le> (TransactionCostEstimate.tokenGasCost ?raw * ?pad) div fixedPointAdjustment"
    using t assms(2) fp by (simp add: pos_imp_zdiv_nonneg_iff)
  have q3: "bn_quot ((TransactionCostEstimate.tokenGasCost ?raw * ?pad) div fixedPointAdjustment * ?m)
              fixedPointAdjustment
            = ((TransactionCostEstimate.tokenGasCost ?raw * ?pad) div fixedPointAdjustment * ?m)
              div fixedPointAdjustment"
    using p m fp by (intro bn_quot_nonneg) simp_all
  have e: "fixedPointAdjustment = 10 ^ 18" by (simp only: fixedPointAdjustment_def)
  have "FillCost.nativeGasCost cost
          = (TransactionCostEstimate.nativeGasCost ?raw * ?pad) div fixedPointAdjustment"
    using estimateFillCost_InrD(3)[OF assms(1)] q1 by (simp only:)
  moreover have "FillCost.tokenGasCost cost
          = ((TransactionCostEstimate.tokenGasCost ?raw * ?pad) div fixedPointAdjustment * ?m)
              div fixedPointAdjustment"
    using estimateFillCost_InrD(4)[OF assms(1)] q2 q3 by (simp only:)
  ultimately show ?thesis
    unfolding e resolveGasMultiplier_def by (intro conjI) (simp_all only:)
qed

theorem estimateFillCost_scaling_witness:
  "estimateFillCost sample_env (sample_client False 0) (sample_deposit 99000000 ''0x'')
     = Inr \<lparr> FillCost.nativeGasCost = 150001, FillCost.tokenGasCost = 225001,
             FillCost.gasPrice = 1, FillCost.gasTokenPriceUsd = 2000 * 10 ^ 18,
             FillCost.gasCostUsd = 450002000 \<rparr>
   \<and> 0 \<le> ProfitClient.gasPadding (sample_client False 0)
   \<and> 0 \<le> ProfitClient.gasMultiplier (sample_client False 0)
   \<and> 0 \<le> gasMessageMultiplier (sample_client False 0)
   \<and> (150001::int) = (100001 * (15 * 10 ^ 17)) div 10 ^ 18
   \<and> (225001::int) = ((100001 * (15 * 10 ^ 17)) div 10 ^ 18 * (15 * 10 ^ 17)) div 10 ^ 18"
proof -
  let ?pc = "sample_client False 0"
  let ?d = "sample_deposit 99000000 ''0x''"
  have h1: "estimateFillCost sample_env ?pc ?d
     = Inr \<lparr> FillCost.nativeGasCost = 150001, FillCost.tokenGasCost = 225001,
             FillCost.gasPrice = 1, FillCost.gasTokenPriceUsd = 2000 * 10 ^ 18,
             FillCost.gasCostUsd = 450002000 \<rparr>"
    by code_simp
  have h2: "0 \<le> ProfitClient.gasPadding ?pc" by (simp add: sample_client_def)
  have h3: "0 \<le> ProfitClient.gasMultiplier ?pc" by (simp add: sample_client_def)
  have h4: "0 \<le> gasMessageMultiplier ?pc" by (simp add: sample_client_def)
  have raw: "getTotalGasCost sample_env ?pc ?d
     = \<lparr> TransactionCostEstimate.nativeGasCost = 100001,
         TransactionCostEstimate.tokenGasCost = 100001,
         TransactionCostEstimate.gasPrice = 1 \<rparr>"
    by code_simp
  have e: "isMessageEmpty (resolveDepositMessage ?d)" by code_simp
  show ?thesis
    using h1 h2 h3 h4 estimateFillCost_scaling[OF h1 h2 h3 h4]
    by (simp add: raw e sample_client_def)
qed

theorem tokenGasCost_single_division_counterexample:
  "estimateFillCost sample_env (sample_client False 0) (sample_deposit 99000000 ''0x'')
     = Inr \<lparr> FillCost.nativeGasCost = 150001, FillCost.tokenGasCost = 225001,
             FillCost.gasPrice = 1, FillCost.gasTokenPriceUsd = 2000 * 10 ^ 18,
             FillCost.gasCostUsd = 450002000 \<rparr>
   \<and> (TransactionCostEstimate.tokenGasCost
         (getTotalGasCost sample_env (sample_client False 0) (sample_deposit 99000000 ''0x''))
        * ProfitClient.gasPadding (sample_client False 0)
        * resolveGasMultiplier (sample_client False 0) (sample_deposit 99000000 ''0x''))
       div 10 ^ 36 = 225002"
  by code_simp

lemma calculateFillProfitability_InrD:
  assumes "calculateFillProfitability env pc d lp minFee = Inr fill"
  shows "FillProfit.profitable fill \<longleftrightarrow>
           inputTokenPriceUsd fill > 0 \<and> outputTokenPriceUsd fill > 0
           \<and> FillProfit.netRelayerFeePct fill \<ge> minFee"
    and "outputAmountUsd fill \<le> 0 \<Longrightarrow> FillProfit.netRelayerFeePct fill = 0"
    and "\<exists>scalar. outputAmountUsd fill
           = bn_quot (effectiveOutputAmount d * scalar * outputTokenPriceUsd fill) fixedPointAdjustment"
    and "\<exists>cost. estimateFillCost env pc d = Inr cost
           \<and> FillProfit.nativeGasCost fill = FillCost.nativeGasCost cost"
  using assms unfolding calculateFillProfitability_def bindE_def Let_def
  by (auto split: sum.splits prod.splits if_splits)

text \<open>
  C4, as the code has it: whenever \<open>calculateFillProfitability\<close> returns, \<open>profitable\<close> holds
  iff both token prices are positive and \<open>netRelayerFeePct \<ge> minRelayerFeePct\<close>; and for a
  deposit whose effective output amount is 0, \<open>netRelayerFeePct = 0\<close>, so that \<open>profitable\<close>
  holds iff both prices are positive and \<open>minRelayerFeePct \<le> 0\<close>: it is false for every
  positive minimum fee.
\<close>

theorem calculateFillProfitability_profitable:
  assumes "calculateFillProfitability env pc d lp minFee = Inr fill"
  shows "(FillProfit.profitable fill \<longleftrightarrow>
            inputTokenPriceUsd fill > 0 \<and> outputTokenPriceUsd fill > 0
            \<and> FillProfit.netRelayerFeePct fill \<ge> minFee)
       \<and> (effectiveOutputAmount d = 0 \<longrightarrow>
            FillProfit.netRelayerFeePct fill = 0
            \<and> (FillProfit.profitable fill \<longleftrightarrow>
                 inputTokenPriceUsd fill > 0 \<and> outputTokenPriceUsd fill > 0 \<and> minFee \<le> 0))"
proof -
  note D = calculateFillProfitability_InrD[OF assms]
  have z: "effectiveOutputAmount d = 0 \<Longrightarrow> FillProfit.netRelayerFeePct fill = 0"
    using D(2,3) by (auto simp: bn_quot_def)
  show ?thesis using D(1) z by auto
qed


theorem calculateFillProfitability_profitable_witness:
  "calculateFillProfitability sample_env (sample_client False 0) (sample_deposit 0 ''0x'')
       (10 ^ 14) (10 ^ 14)
     = Inr \<lparr> inputTokenPriceUsd = 10 ^ 18, inputAmountUsd = 100 * 10 ^ 18,
             outputTokenPriceUsd = 10 ^ 18, outputAmountUsd = 0,
             grossRelayerFeePct = 999900000000000000,
             grossRelayerFeeUsd = 99990000000000000000,
             FillProfit.nativeGasCost = 150001, FillProfit.tokenGasCost = 225001,
             FillProfit.gasPrice = 1, FillProfit.gasPadding = 15 * 10 ^ 17,
             FillProfit.gasMultiplier = 15 * 10 ^ 17,
             FillProfit.gasTokenPriceUsd = 2000 * 10 ^ 18, FillProfit.gasCostUsd = 450002000,
             FillProfit.netRelayerFeePct = 0, netRelayerFeeUsd = 99989999999549998000,
             totalFeePct = 10 ^ 18, FillProfit.profitable = False \<rparr>
   \<and> effectiveOutputAmount (sample_deposit 0 ''0x'') = 0"
proof -
  let ?fill = "\<lparr> inputTokenPriceUsd = 10 ^ 18, inputAmountUsd = 100 * 10 ^ 18,
             outputTokenPriceUsd = 10 ^ 18, outputAmountUsd = 0,
             grossRelayerFeePct = 999900000000000000,
             grossRelayerFeeUsd = 99990000000000000000,
             FillProfit.nativeGasCost = 150001, FillProfit.tokenGasCost = 225001,
             FillProfit.gasPrice = 1, FillProfit.gasPadding = 15 * 10 ^ 17,
             FillProfit.gasMultiplier = 15 * 10 ^ 17,
             FillProfit.gasTokenPriceUsd = 2000 * 10 ^ 18, FillProfit.gasCostUsd = 450002000,
             FillProfit.netRelayerFeePct = 0, netRelayerFeeUsd = 99989999999549998000,
             totalFeePct = 10 ^ 18, FillProfit.profitable = False \<rparr>"
  have h: "calculateFillProfitability sample_env (sample_client False 0) (sample_deposit 0 ''0x'')
             (10 ^ 14) (10 ^ 14) = Inr ?fill"
    by code_simp
  have z: "effectiveOutputAmount (sample_deposit 0 ''0x'') = 0" by code_simp
  show ?thesis
    using h z calculateFillProfitability_profitable[OF h] by simp
qed

theorem zero_output_profitable_counterexample:
  "effectiveOutputAmount (sample_deposit 0 ''0x'') = 0
   \<and> map_sum id FillProfit.profitable
        (calculateFillProfitability sample_env (sample_client False 0) (sample_deposit 0 ''0x'')
           (10 ^ 14) 0) = Inr True"
  by code_simp

lemma minRelayerFeePct_fields:
  assumes "minRelayerFeePct env pc s a b = Inr (fee, pc')"
  shows "isTestnet pc' = isTestnet pc" and "totalGasCosts pc' = totalGasCosts pc"
    and "enabledChainIds pc' = enabledChainIds pc" and "relayerAddress pc' = relayerAddress pc"
  using assms unfolding minRelayerFeePct_def bindE_def Let_def
  by (auto split: option.splits sum.splits if_splits)

lemma getTotalGasCost_cong:
  assumes "totalGasCosts pc' = totalGasCosts pc" and "enabledChainIds pc' = enabledChainIds pc"
      and "relayerAddress pc' = relayerAddress pc"
  shows "getTotalGasCost env pc' d = getTotalGasCost env pc d"
  using assms by (simp add: getTotalGasCost_def priv_getTotalGasCost_def split: option.splits)

lemma getTotalGasCost_query_fails:
  assumes "getGasCosts env d (relayerAddress pc) = None"
      and "\<not> (isMessageEmpty (resolveDepositMessage d) \<and> totalGasCosts pc (destinationChainId d) \<noteq> None)"
  shows "getTotalGasCost env pc d = gasCostSentinel"
  using assms by (auto simp: getTotalGasCost_def priv_getTotalGasCost_def split: option.splits)

lemma sentinel_not_profitable:
  assumes "getTotalGasCost env pc d = gasCostSentinel"
  shows "calculateFillProfitability env pc d lp minFee = Inr fill \<Longrightarrow> False"
proof -
  assume "calculateFillProfitability env pc d lp minFee = Inr fill"
  then obtain cost where "estimateFillCost env pc d = Inr cost"
    using calculateFillProfitability_InrD(4) by blast
  from estimateFillCost_InrD(1)[OF this] assms show False
    by (simp add: gasFieldUnknown_def gasCostSentinel_def)
qed

lemma isFillProfitable_sentinel:
  assumes "getTotalGasCost env pc d = gasCostSentinel"
  shows "snd (isFillProfitable env pc d lp l1 rc) =
           \<lparr> FillDecision.profitable = False, FillDecision.nativeGasCost = uint256Max,
             FillDecision.tokenGasCost = uint256Max, FillDecision.gasPrice = uint256Max,
             FillDecision.netRelayerFeePct = 0 \<rparr>"
proof (cases "minRelayerFeePct env pc (getTokenSymbol env l1 (hubPoolChainId env)) (originChainId d) (destinationChainId d)")
  case (Inl e)
  then show ?thesis
    by (simp add: isFillProfitable_def getFillProfitability_def Let_def)
next
  case (Inr r)
  obtain fee pc' where r: "r = (fee, pc')" by (cases r)
  have g: "getTotalGasCost env pc' d = gasCostSentinel"
    using minRelayerFeePct_fields[OF Inr[unfolded r]] getTotalGasCost_cong[of pc' pc env d] assms
    by simp
  have "\<exists>e. calculateFillProfitability env pc' d lp fee = Inl e"
    using sentinel_not_profitable[OF g, of lp fee] by (cases "calculateFillProfitability env pc' d lp fee") auto
  then show ?thesis using Inr r
    by (auto simp: isFillProfitable_def getFillProfitability_def Let_def)
qed

lemma minRelayerFeePct_client:
  assumes "minRelayerFeePct env pc s a b = Inr (fee, pc')"
  shows "\<exists>m. pc' = pc\<lparr> minRelayerFees := m \<rparr>"
proof (cases "\<exists>saved. (case minRelayerFees pc (RouteKey (case TOKEN_EQUIVALENCE_REMAPPING env s of Some r \<Rightarrow> r | None \<Rightarrow> s) a b) of
                 Some f \<Rightarrow> Some f
               | None \<Rightarrow> minRelayerFees pc (TokenKey (case TOKEN_EQUIVALENCE_REMAPPING env s of Some r \<Rightarrow> r | None \<Rightarrow> s))) = Some saved")
  case True
  then have "pc' = pc"
    using assms unfolding minRelayerFeePct_def Let_def by auto
  then have "pc' = pc\<lparr> minRelayerFees := minRelayerFees pc \<rparr>" by simp
  then show ?thesis by blast
next
  case False
  then show ?thesis
    using assms unfolding minRelayerFeePct_def Let_def bindE_def
    by (auto split: sum.splits)
qed

lemma resolveTokenAddress_fees_cong:
  "resolveTokenAddress env (pc\<lparr> minRelayerFees := m \<rparr>) t = resolveTokenAddress env pc t"
  by (simp add: resolveTokenAddress_def Let_def cong: if_cong option.case_cong sum.case_cong prod.case_cong)

lemma getPriceOfToken_fees_cong:
  "getPriceOfToken env (pc\<lparr> minRelayerFees := m \<rparr>) t = getPriceOfToken env pc t"
  by (simp add: getPriceOfToken_def resolveTokenAddress_fees_cong cong: if_cong option.case_cong sum.case_cong prod.case_cong)

lemma getTotalGasCost_fees_cong:
  "getTotalGasCost env (pc\<lparr> minRelayerFees := m \<rparr>) d = getTotalGasCost env pc d"
  by (simp add: getTotalGasCost_def priv_getTotalGasCost_def resolveGasMultiplier_def Let_def
      cong: if_cong option.case_cong sum.case_cong prod.case_cong)

lemma resolveGasMultiplier_fees_cong:
  "resolveGasMultiplier (pc\<lparr> minRelayerFees := m \<rparr>) d = resolveGasMultiplier pc d"
  by (simp add: resolveGasMultiplier_def)

lemma estimateFillCost_fees_cong:
  "estimateFillCost env (pc\<lparr> minRelayerFees := m \<rparr>) d = estimateFillCost env pc d"
  by (simp add: estimateFillCost_def getPriceOfToken_fees_cong getTotalGasCost_fees_cong
      resolveGasMultiplier_fees_cong Let_def
      cong: if_cong option.case_cong sum.case_cong prod.case_cong)

lemma calculateFillProfitability_fees_cong:
  "calculateFillProfitability env (pc\<lparr> minRelayerFees := m \<rparr>) d lp fee
     = calculateFillProfitability env pc d lp fee"
  by (simp add: calculateFillProfitability_def estimateFillCost_fees_cong getPriceOfToken_fees_cong
      resolveGasMultiplier_fees_cong Let_def
      cong: if_cong option.case_cong sum.case_cong prod.case_cong)

lemma getFillProfitability_outcome:
  assumes "minRelayerFeePct env pc (getTokenSymbol env l1 (hubPoolChainId env))
             (originChainId d) (destinationChainId d) = Inr (fee, pc')"
  shows "snd (getFillProfitability env pc d lp l1 rc) = calculateFillProfitability env pc d lp fee"
    and "isTestnet pc' = isTestnet pc"
proof -
  from minRelayerFeePct_client[OF assms] obtain m where m: "pc' = pc\<lparr> minRelayerFees := m \<rparr>"
    by blast
  show "snd (getFillProfitability env pc d lp l1 rc) = calculateFillProfitability env pc d lp fee"
    using assms by (simp add: getFillProfitability_def Let_def m calculateFillProfitability_fees_cong)
  show "isTestnet pc' = isTestnet pc" by (simp add: m)
qed

lemma isFillProfitable_outcome:
  "snd (isFillProfitable env pc d lp l1 rc) =
     (case snd (getFillProfitability env pc d lp l1 rc) of
        Inr fill \<Rightarrow>
          \<lparr> FillDecision.profitable =
              (FillProfit.profitable fill \<or> (isTestnet pc \<and> FillProfit.nativeGasCost fill < uint256Max)),
            FillDecision.nativeGasCost = FillProfit.nativeGasCost fill,
            FillDecision.tokenGasCost = FillProfit.tokenGasCost fill,
            FillDecision.gasPrice = FillProfit.gasPrice fill,
            FillDecision.netRelayerFeePct = FillProfit.netRelayerFeePct fill \<rparr>
      | Inl e \<Rightarrow>
          \<lparr> FillDecision.profitable = False, FillDecision.nativeGasCost = uint256Max,
            FillDecision.tokenGasCost = uint256Max, FillDecision.gasPrice = uint256Max,
            FillDecision.netRelayerFeePct = 0 \<rparr>)"
proof (cases "minRelayerFeePct env pc (getTokenSymbol env l1 (hubPoolChainId env)) (originChainId d) (destinationChainId d)")
  case (Inl e)
  then show ?thesis
    by (simp add: isFillProfitable_def getFillProfitability_def Let_def)
next
  case (Inr r)
  obtain fee pc' where r: "r = (fee, pc')" by (cases r)
  have t: "isTestnet pc' = isTestnet pc"
    using getFillProfitability_outcome(2)[OF Inr[unfolded r]] .
  show ?thesis using Inr r t
    by (simp add: isFillProfitable_def getFillProfitability_def Let_def split: sum.splits)
qed

lemma estimateFillCost_succeeds:
  assumes "resolveGasToken env (destinationChainId d) = Inr (gasSymbol, gasAddress, gasDecimals)"
      and "getPriceOfToken env pc gasSymbol = Inr gasTokenPrice"
      and "\<not> gasFieldUnknown (TransactionCostEstimate.nativeGasCost (getTotalGasCost env pc d))"
      and "\<not> gasFieldUnknown (TransactionCostEstimate.tokenGasCost (getTotalGasCost env pc d))"
      and "\<not> gasFieldUnknown gasTokenPrice"
  shows "\<exists>cost. estimateFillCost env pc d = Inr cost
           \<and> FillCost.nativeGasCost cost
               = bn_quot (TransactionCostEstimate.nativeGasCost (getTotalGasCost env pc d)
                          * ProfitClient.gasPadding pc) fixedPointAdjustment"
  using assms by (simp add: estimateFillCost_def bindE_def Let_def)

lemma calculateFillProfitability_succeeds:
  assumes "tokenInfoE env (inputToken d) (originChainId d) = Inr (inputSymbol, inputDecimals)"
      and "inputDecimals \<le> 18"
      and "getPriceOfToken env pc inputSymbol = Inr inputPrice"
      and "tokenInfoE env (outputToken d) (destinationChainId d) = Inr (outputSymbol, outputDecimals)"
      and "outputDecimals \<le> 18"
      and "getPriceOfToken env pc outputSymbol = Inr outputPrice"
      and "bn_quot (inputAmount d * 10 ^ (18 - inputDecimals) * inputPrice) fixedPointAdjustment \<noteq> 0"
      and "estimateFillCost env pc d = Inr cost"
  shows "\<exists>fill. calculateFillProfitability env pc d lp minFee = Inr fill
           \<and> FillProfit.nativeGasCost fill = FillCost.nativeGasCost cost"
  using assms
  by (simp add: calculateFillProfitability_def bindE_def Let_def tokenScalar_def bn_div_def)

text \<open>
  C6, as the code has it: when the simulation of a deposit is run (the deposit carries a message,
  or its destination has no cached cost) and the query throws, \<open>getTotalGasCost\<close> returns the
  sentinel triple of \<open>uint256Max\<close>, which is a value and not an error, and \<open>isFillProfitable\<close>
  then answers \<open>profitable = false\<close> with \<open>nativeGasCost = uint256Max\<close>, on mainnet and on
  testnet alike. Any other error of the profitability computation gives the same answer, also on
  testnet and also when the simulation succeeded. On testnet the answer is \<open>profitable = true\<close>,
  with the padded native gas cost of the simulation, when the whole computation completes: the
  minimum fee, the token information and the prices of the input, output and gas tokens resolve,
  the input amount is worth more than 0 USD, the gas token price and the simulated costs are
  known, and the padded native gas cost is below \<open>uint256Max\<close>.
\<close>

theorem gas_simulation_failure:
  "(getGasCosts env d (relayerAddress pc) = None
      \<and> \<not> (isMessageEmpty (resolveDepositMessage d) \<and> totalGasCosts pc (destinationChainId d) \<noteq> None)
    \<longrightarrow> getTotalGasCost env pc d = gasCostSentinel
        \<and> \<not> FillDecision.profitable (snd (isFillProfitable env pc d lp l1 rc))
        \<and> FillDecision.nativeGasCost (snd (isFillProfitable env pc d lp l1 rc)) = uint256Max)
   \<and> (snd (getFillProfitability env pc d lp l1 rc) = Inl e
    \<longrightarrow> \<not> FillDecision.profitable (snd (isFillProfitable env pc d lp l1 rc))
        \<and> FillDecision.nativeGasCost (snd (isFillProfitable env pc d lp l1 rc)) = uint256Max)
   \<and> (isTestnet pc
        \<and> minRelayerFeePct env pc (getTokenSymbol env l1 (hubPoolChainId env))
             (originChainId d) (destinationChainId d) = Inr (minFee, pc')
        \<and> tokenInfoE env (inputToken d) (originChainId d) = Inr (inputSymbol, inputDecimals)
        \<and> inputDecimals \<le> 18
        \<and> getPriceOfToken env pc inputSymbol = Inr inputPrice
        \<and> tokenInfoE env (outputToken d) (destinationChainId d) = Inr (outputSymbol, outputDecimals)
        \<and> outputDecimals \<le> 18
        \<and> getPriceOfToken env pc outputSymbol = Inr outputPrice
        \<and> bn_quot (inputAmount d * 10 ^ (18 - inputDecimals) * inputPrice) fixedPointAdjustment \<noteq> 0
        \<and> resolveGasToken env (destinationChainId d) = Inr (gasSymbol, gasAddress, gasDecimals)
        \<and> getPriceOfToken env pc gasSymbol = Inr gasTokenPrice
        \<and> \<not> gasFieldUnknown gasTokenPrice
        \<and> \<not> gasFieldUnknown (TransactionCostEstimate.nativeGasCost (getTotalGasCost env pc d))
        \<and> \<not> gasFieldUnknown (TransactionCostEstimate.tokenGasCost (getTotalGasCost env pc d))
        \<and> bn_quot (TransactionCostEstimate.nativeGasCost (getTotalGasCost env pc d)
                    * ProfitClient.gasPadding pc) fixedPointAdjustment < uint256Max
    \<longrightarrow> FillDecision.profitable (snd (isFillProfitable env pc d lp l1 rc))
        \<and> FillDecision.nativeGasCost (snd (isFillProfitable env pc d lp l1 rc))
            = bn_quot (TransactionCostEstimate.nativeGasCost (getTotalGasCost env pc d)
                       * ProfitClient.gasPadding pc) fixedPointAdjustment)"
proof (intro conjI impI)
  assume h: "getGasCosts env d (relayerAddress pc) = None
      \<and> \<not> (isMessageEmpty (resolveDepositMessage d) \<and> totalGasCosts pc (destinationChainId d) \<noteq> None)"
  then have s: "getTotalGasCost env pc d = gasCostSentinel"
    using getTotalGasCost_query_fails[of env d pc] by simp
  then show "getTotalGasCost env pc d = gasCostSentinel" .
  from isFillProfitable_sentinel[OF s, of lp l1 rc]
  show "\<not> FillDecision.profitable (snd (isFillProfitable env pc d lp l1 rc))"
    and "FillDecision.nativeGasCost (snd (isFillProfitable env pc d lp l1 rc)) = uint256Max"
    by simp_all
next
  assume "snd (getFillProfitability env pc d lp l1 rc) = Inl e"
  then show "\<not> FillDecision.profitable (snd (isFillProfitable env pc d lp l1 rc))"
    and "FillDecision.nativeGasCost (snd (isFillProfitable env pc d lp l1 rc)) = uint256Max"
    by (simp_all add: isFillProfitable_outcome)
next
  assume h: "isTestnet pc
        \<and> minRelayerFeePct env pc (getTokenSymbol env l1 (hubPoolChainId env))
             (originChainId d) (destinationChainId d) = Inr (minFee, pc')
        \<and> tokenInfoE env (inputToken d) (originChainId d) = Inr (inputSymbol, inputDecimals)
        \<and> inputDecimals \<le> 18
        \<and> getPriceOfToken env pc inputSymbol = Inr inputPrice
        \<and> tokenInfoE env (outputToken d) (destinationChainId d) = Inr (outputSymbol, outputDecimals)
        \<and> outputDecimals \<le> 18
        \<and> getPriceOfToken env pc outputSymbol = Inr outputPrice
        \<and> bn_quot (inputAmount d * 10 ^ (18 - inputDecimals) * inputPrice) fixedPointAdjustment \<noteq> 0
        \<and> resolveGasToken env (destinationChainId d) = Inr (gasSymbol, gasAddress, gasDecimals)
        \<and> getPriceOfToken env pc gasSymbol = Inr gasTokenPrice
        \<and> \<not> gasFieldUnknown gasTokenPrice
        \<and> \<not> gasFieldUnknown (TransactionCostEstimate.nativeGasCost (getTotalGasCost env pc d))
        \<and> \<not> gasFieldUnknown (TransactionCostEstimate.tokenGasCost (getTotalGasCost env pc d))
        \<and> bn_quot (TransactionCostEstimate.nativeGasCost (getTotalGasCost env pc d)
                    * ProfitClient.gasPadding pc) fixedPointAdjustment < uint256Max"
  let ?native = "bn_quot (TransactionCostEstimate.nativeGasCost (getTotalGasCost env pc d)
                    * ProfitClient.gasPadding pc) fixedPointAdjustment"
  from h obtain cost where c: "estimateFillCost env pc d = Inr cost"
    "FillCost.nativeGasCost cost = ?native"
    using estimateFillCost_succeeds[of env d gasSymbol gasAddress gasDecimals pc gasTokenPrice]
    by blast
  from h c(1) obtain fill where f: "calculateFillProfitability env pc d lp minFee = Inr fill"
    "FillProfit.nativeGasCost fill = FillCost.nativeGasCost cost"
    using calculateFillProfitability_succeeds[of env d inputSymbol inputDecimals pc inputPrice
        outputSymbol outputDecimals outputPrice cost lp minFee]
    by blast
  from h have o: "snd (getFillProfitability env pc d lp l1 rc) = Inr fill"
    using getFillProfitability_outcome(1)[of env pc l1 d minFee pc' lp rc] f(1) by simp
  show "FillDecision.profitable (snd (isFillProfitable env pc d lp l1 rc))"
    using h o f(2) c(2) by (simp add: isFillProfitable_outcome)
  show "FillDecision.nativeGasCost (snd (isFillProfitable env pc d lp l1 rc)) = ?native"
    using o f(2) c(2) by (simp add: isFillProfitable_outcome)
qed


theorem gas_simulation_failure_witness:
  "(getGasCosts sample_env (sample_deposit 99000000 ''0x1234'') (relayerAddress (sample_client False 0)) = None
    \<and> \<not> (isMessageEmpty (resolveDepositMessage (sample_deposit 99000000 ''0x1234''))
           \<and> totalGasCosts (sample_client False 0) (destinationChainId (sample_deposit 99000000 ''0x1234'')) \<noteq> None)
    \<and> getTotalGasCost sample_env (sample_client False 0) (sample_deposit 99000000 ''0x1234'') = gasCostSentinel
    \<and> \<not> FillDecision.profitable
          (snd (isFillProfitable sample_env (sample_client False 0) (sample_deposit 99000000 ''0x1234'')
                  (10 ^ 14) ''0xUSDC'' 10)))
   \<and> (snd (getFillProfitability sample_env sample_client_without_usdc_price
              (sample_deposit 99000000 ''0x'') (10 ^ 14) ''0xUSDC'' 10) = Inl DivisionByZero
    \<and> \<not> FillDecision.profitable
          (snd (isFillProfitable sample_env sample_client_without_usdc_price
                  (sample_deposit 99000000 ''0x'') (10 ^ 14) ''0xUSDC'' 10))
    \<and> FillDecision.nativeGasCost
          (snd (isFillProfitable sample_env sample_client_without_usdc_price
                  (sample_deposit 99000000 ''0x'') (10 ^ 14) ''0xUSDC'' 10)) = uint256Max)
   \<and> (isTestnet (sample_client True (10 ^ 18))
    \<and> TransactionCostEstimate.nativeGasCost
          (getTotalGasCost sample_env (sample_client True (10 ^ 18)) (sample_deposit 99000000 ''0x''))
        = 100001
    \<and> FillDecision.profitable
          (snd (isFillProfitable sample_env (sample_client True (10 ^ 18)) (sample_deposit 99000000 ''0x'')
                  (10 ^ 14) ''0xUSDC'' 10))
    \<and> FillDecision.nativeGasCost
          (snd (isFillProfitable sample_env (sample_client True (10 ^ 18)) (sample_deposit 99000000 ''0x'')
                  (10 ^ 14) ''0xUSDC'' 10))
        = bn_quot (TransactionCostEstimate.nativeGasCost
                     (getTotalGasCost sample_env (sample_client True (10 ^ 18))
                        (sample_deposit 99000000 ''0x''))
                   * ProfitClient.gasPadding (sample_client True (10 ^ 18))) fixedPointAdjustment)"
proof -
  let ?d = "sample_deposit 99000000 ''0x1234''"
  let ?pc = "sample_client False 0"
  let ?t = "sample_client True (10 ^ 18)"
  let ?u = "sample_client_without_usdc_price"
  let ?e = "sample_deposit 99000000 ''0x''"
  have a1: "getGasCosts sample_env ?d (relayerAddress ?pc) = None" by code_simp
  have a2: "\<not> (isMessageEmpty (resolveDepositMessage ?d)
                \<and> totalGasCosts ?pc (destinationChainId ?d) \<noteq> None)" by code_simp
  have c1: "snd (getFillProfitability sample_env ?u ?e (10 ^ 14) ''0xUSDC'' 10) = Inl DivisionByZero"
    by code_simp
  have b1: "isTestnet ?t" by code_simp
  have b2: "(case minRelayerFeePct sample_env ?t (getTokenSymbol sample_env ''0xUSDC'' (hubPoolChainId sample_env))
                   (originChainId ?e) (destinationChainId ?e) of
               Inr r \<Rightarrow> True | Inl x \<Rightarrow> False)" by code_simp
  then obtain minFee pc' where b3:
    "minRelayerFeePct sample_env ?t (getTokenSymbol sample_env ''0xUSDC'' (hubPoolChainId sample_env))
        (originChainId ?e) (destinationChainId ?e) = Inr (minFee, pc')"
    by (auto split: sum.splits)
  have b4: "tokenInfoE sample_env (inputToken ?e) (originChainId ?e) = Inr (''USDC'', 6)" by code_simp
  have b5: "getPriceOfToken sample_env ?t ''USDC'' = Inr (10 ^ 18)" by code_simp
  have b6: "tokenInfoE sample_env (outputToken ?e) (destinationChainId ?e) = Inr (''USDC'', 6)"
    by code_simp
  have b7: "bn_quot (inputAmount ?e * 10 ^ (18 - 6) * 10 ^ 18) fixedPointAdjustment \<noteq> 0"
    by code_simp
  have b8: "resolveGasToken sample_env (destinationChainId ?e) = Inr (''ETH'', Some ''0xWETH'', 18)"
    by code_simp
  have b9: "getPriceOfToken sample_env ?t ''ETH'' = Inr (2000 * 10 ^ 18)" by code_simp
  have b10: "\<not> gasFieldUnknown (2000 * 10 ^ 18)" by code_simp
  have b11: "\<not> gasFieldUnknown (TransactionCostEstimate.nativeGasCost (getTotalGasCost sample_env ?t ?e))"
    by code_simp
  have b12: "\<not> gasFieldUnknown (TransactionCostEstimate.tokenGasCost (getTotalGasCost sample_env ?t ?e))"
    by code_simp
  have b13: "bn_quot (TransactionCostEstimate.nativeGasCost (getTotalGasCost sample_env ?t ?e)
                      * ProfitClient.gasPadding ?t) fixedPointAdjustment < uint256Max"
    by code_simp
  have b14: "TransactionCostEstimate.nativeGasCost (getTotalGasCost sample_env ?t ?e) = 100001"
    by code_simp
  have b15: "(6::nat) \<le> 18" by simp
  note A = gas_simulation_failure[where env = sample_env and d = ?d and pc = ?pc and lp = "10 ^ 14"
        and ?l1.0 = "''0xUSDC''" and rc = 10, THEN conjunct1, rule_format]
  note C = gas_simulation_failure[where env = sample_env and d = ?e and pc = ?u and lp = "10 ^ 14"
        and ?l1.0 = "''0xUSDC''" and rc = 10 and e = DivisionByZero,
        THEN conjunct2, THEN conjunct1, rule_format]
  note D = gas_simulation_failure[where env = sample_env and d = ?e and pc = ?t and lp = "10 ^ 14"
        and ?l1.0 = "''0xUSDC''" and rc = 10 and minFee = minFee and pc' = pc'
        and inputSymbol = "''USDC''" and inputDecimals = 6 and inputPrice = "10 ^ 18"
        and outputSymbol = "''USDC''" and outputDecimals = 6 and outputPrice = "10 ^ 18"
        and gasSymbol = "''ETH''" and gasAddress = "Some ''0xWETH''" and gasDecimals = 18
        and gasTokenPrice = "2000 * 10 ^ 18", THEN conjunct2, THEN conjunct2, rule_format]
  have ra: "getTotalGasCost sample_env ?pc ?d = gasCostSentinel
        \<and> \<not> FillDecision.profitable (snd (isFillProfitable sample_env ?pc ?d (10 ^ 14) ''0xUSDC'' 10))
        \<and> FillDecision.nativeGasCost (snd (isFillProfitable sample_env ?pc ?d (10 ^ 14) ''0xUSDC'' 10)) = uint256Max"
    using a1 a2 by (intro A conjI)
  have rc: "\<not> FillDecision.profitable (snd (isFillProfitable sample_env ?u ?e (10 ^ 14) ''0xUSDC'' 10))
        \<and> FillDecision.nativeGasCost (snd (isFillProfitable sample_env ?u ?e (10 ^ 14) ''0xUSDC'' 10)) = uint256Max"
    using c1 by (rule C)
  have rd: "FillDecision.profitable (snd (isFillProfitable sample_env ?t ?e (10 ^ 14) ''0xUSDC'' 10))
        \<and> FillDecision.nativeGasCost (snd (isFillProfitable sample_env ?t ?e (10 ^ 14) ''0xUSDC'' 10))
            = bn_quot (TransactionCostEstimate.nativeGasCost (getTotalGasCost sample_env ?t ?e)
                       * ProfitClient.gasPadding ?t) fixedPointAdjustment"
    using b1 b3 b4 b5 b6 b7 b8 b9 b10 b11 b12 b13 b15 by (intro D conjI)
  show ?thesis
    using a1 a2 c1 b1 b14 ra rc rd by blast
qed

theorem testnet_simulation_success_counterexample:
  "isTestnet sample_client_without_usdc_price
   \<and> getGasCosts sample_env (sample_deposit 99000000 ''0x'')
        (relayerAddress sample_client_without_usdc_price)
       = Some \<lparr> TransactionCostEstimate.nativeGasCost = 100001,
                TransactionCostEstimate.tokenGasCost = 100001,
                TransactionCostEstimate.gasPrice = 1 \<rparr>
   \<and> TransactionCostEstimate.nativeGasCost
        (getTotalGasCost sample_env sample_client_without_usdc_price (sample_deposit 99000000 ''0x''))
       = 100001
   \<and> TransactionCostEstimate.nativeGasCost
        (getTotalGasCost sample_env sample_client_without_usdc_price (sample_deposit 99000000 ''0x''))
       < uint256Max
   \<and> \<not> FillDecision.profitable
        (snd (isFillProfitable sample_env sample_client_without_usdc_price
                (sample_deposit 99000000 ''0x'') (10 ^ 14) ''0xUSDC'' 10))
   \<and> FillDecision.nativeGasCost
        (snd (isFillProfitable sample_env sample_client_without_usdc_price
                (sample_deposit 99000000 ''0x'') (10 ^ 14) ''0xUSDC'' 10)) = uint256Max"
  by code_simp

lemma bn_quot_range:
  assumes "0 \<le> x" and "x \<le> c" and "0 < c"
  shows "0 \<le> bn_quot (x * 10 ^ 18) c \<and> bn_quot (x * 10 ^ 18) c \<le> 10 ^ 18"
proof -
  have q: "bn_quot (x * 10 ^ 18) c = (x * 10 ^ 18) div c"
    using assms by (intro bn_quot_nonneg) simp_all
  have lo: "0 \<le> (x * 10 ^ 18) div c" using assms by (simp add: pos_imp_zdiv_nonneg_iff)
  have "(x * 10 ^ 18) div c \<le> (c * 10 ^ 18) div c"
    using assms by (intro zdiv_mono1) simp_all
  also have "\<dots> = 10 ^ 18" using assms by simp
  finally show ?thesis using q lo by simp
qed

lemma mapE_member:
  "mapE f xs = Inr ys \<Longrightarrow> x \<in> set xs \<Longrightarrow> \<exists>y. f x = Inr y \<and> y \<in> set ys"
proof (induction xs arbitrary: ys)
  case Nil
  then show ?case by simp
next
  case (Cons a xs)
  then show ?case by (auto split: sum.splits)
qed

lemma mapE_results:
  "mapE f xs = Inr ys \<Longrightarrow> y \<in> set ys \<Longrightarrow> \<exists>x \<in> set xs. f x = Inr y"
proof (induction xs arbitrary: ys)
  case Nil
  then show ?case by simp
next
  case (Cons a xs)
  then show ?case by (auto split: sum.splits)
qed

lemma member_le_sum_list_int:
  fixes ys :: "int list"
  assumes "\<And>z. z \<in> set ys \<Longrightarrow> 0 \<le> z" and "y \<in> set ys"
  shows "y \<le> sum_list ys"
  using assms
proof (induction ys)
  case Nil
  then show ?case by simp
next
  case (Cons a ys)
  have s: "0 \<le> sum_list ys" using Cons.prems(1) by (intro sum_list_nonneg) simp
  show ?case
  proof (cases "y = a")
    case True
    then show ?thesis using s by simp
  next
    case False
    then have "y \<le> sum_list ys" using Cons by simp
    moreover have "0 \<le> a" using Cons.prems(1) by simp
    ultimately show ?thesis by simp
  qed
qed

lemma ConvertDecimals_nonneg: "0 \<le> x \<Longrightarrow> 0 \<le> ConvertDecimals a b x"
  by (simp add: ConvertDecimals_def pos_imp_zdiv_nonneg_iff)

lemma getBalanceOnChain_total_nonneg:
  assumes "getBalanceOnChain env cl c l1Token None = Inr b"
      and "\<And>c t. 0 \<le> getBalance env c t"
      and "\<And>c. 0 \<le> getOutstandingCrossChainTransferAmount env c l1Token None"
  shows "0 \<le> b"
proof -
  from assms(1) obtain l1Decimals l2Tokens balances where
    m: "mapE (\<lambda>l2. bindE (decimalsE (l2TokenDecimals env l2 c)) (\<lambda>l2Decimals.
                        Inr (ConvertDecimals l2Decimals l1Decimals (getBalance env c l2))))
             l2Tokens = Inr balances"
    and b: "b = sum_list balances + getOutstandingCrossChainTransferAmount env c l1Token None"
    by (auto simp: getBalanceOnChain_def bindE_Inr_iff)
  have "\<And>z. z \<in> set balances \<Longrightarrow> 0 \<le> z"
  proof -
    fix z assume "z \<in> set balances"
    from mapE_results[OF m this] obtain l2 l2Decimals where
      "z = ConvertDecimals l2Decimals l1Decimals (getBalance env c l2)"
      by (auto simp: bindE_Inr_iff)
    then show "0 \<le> z" using assms(2) by (simp add: ConvertDecimals_nonneg)
  qed
  then have "0 \<le> sum_list balances" by (intro sum_list_nonneg) simp
  then show ?thesis using b assms(3)[of c] by simp
qed

lemma getBalanceOnChain_token_le_total:
  assumes "getBalanceOnChain env cl c l1Token None = Inr b"
      and "getRemoteTokensForL1Token env cl l1Token c = Inr l2Tokens"
      and "l2Token \<in> set l2Tokens"
      and "\<And>c t. 0 \<le> getBalance env c t"
      and "getOutstandingCrossChainTransferAmount env c l1Token (Some l2Token)
             \<le> getOutstandingCrossChainTransferAmount env c l1Token None"
      and "l1TokenDecimals env l1Token = Some l1Decimals"
      and "l2TokenDecimals env l2Token c = Some l2Decimals"
  shows "ConvertDecimals l2Decimals l1Decimals (getBalance env c l2Token)
           + getOutstandingCrossChainTransferAmount env c l1Token (Some l2Token) \<le> b"
proof -
  let ?f = "\<lambda>l2. bindE (decimalsE (l2TokenDecimals env l2 c)) (\<lambda>l2Decimals.
                        Inr (ConvertDecimals l2Decimals l1Decimals (getBalance env c l2)))"
  from assms(1,2,6) obtain balances where
    m: "mapE ?f l2Tokens = Inr balances"
    and b: "b = sum_list balances + getOutstandingCrossChainTransferAmount env c l1Token None"
    by (auto simp: getBalanceOnChain_def bindE_Inr_iff decimalsE_def)
  have nn: "\<And>z. z \<in> set balances \<Longrightarrow> 0 \<le> z"
  proof -
    fix z assume "z \<in> set balances"
    from mapE_results[OF m this] obtain l2 d where
      "z = ConvertDecimals d l1Decimals (getBalance env c l2)"
      by (auto simp: bindE_Inr_iff)
    then show "0 \<le> z" using assms(4) by (simp add: ConvertDecimals_nonneg)
  qed
  from mapE_member[OF m assms(3)] assms(7)
  have "ConvertDecimals l2Decimals l1Decimals (getBalance env c l2Token) \<in> set balances"
    by (auto simp: bindE_def decimalsE_def)
  then have "ConvertDecimals l2Decimals l1Decimals (getBalance env c l2Token) \<le> sum_list balances"
    using nn by (intro member_le_sum_list_int) simp_all
  then show ?thesis using b assms(5) by simp
qed

lemma getCumulativeBalance_chain_le:
  assumes "getCumulativeBalance env cl l1Token = Inr cumulative"
      and "chain \<in> set (getEnabledChains cl)"
      and "\<And>c t. 0 \<le> getBalance env c t"
      and "\<And>c. 0 \<le> getOutstandingCrossChainTransferAmount env c l1Token None"
  shows "\<exists>b. getBalanceOnChain env cl chain l1Token None = Inr b \<and> b \<le> cumulative \<and> 0 \<le> cumulative"
proof -
  let ?f = "\<lambda>c. getBalanceOnChain env cl c l1Token None"
  from assms(1) obtain balances where
    m: "mapE ?f (getEnabledChains cl) = Inr balances" and c: "cumulative = sum_list balances"
    by (auto simp: getCumulativeBalance_def bindE_Inr_iff)
  have nn: "\<And>z. z \<in> set balances \<Longrightarrow> 0 \<le> z"
  proof -
    fix z assume "z \<in> set balances"
    from mapE_results[OF m this] obtain c where "?f c = Inr z" by auto
    then show "0 \<le> z" using assms(3,4) by (rule getBalanceOnChain_total_nonneg)
  qed
  from mapE_member[OF m assms(2)] obtain b where b: "?f chain = Inr b" "b \<in> set balances" by auto
  have "b \<le> sum_list balances" using nn b(2) by (intro member_le_sum_list_int) simp_all
  moreover have "0 \<le> sum_list balances" using nn by (intro sum_list_nonneg) simp
  ultimately show ?thesis using b(1) c by simp
qed

lemma bn_quot_upper:
  assumes "x \<le> c" and "0 < c"
  shows "bn_quot (x * 10 ^ 18) c \<le> 10 ^ 18"
proof (cases "0 \<le> x")
  case True
  then show ?thesis using bn_quot_range[OF True assms] by simp
next
  case False
  then have "x * 10 ^ 18 < 0" by (simp add: mult_less_0_iff)
  then have "bn_quot (x * 10 ^ 18) c = - (\<bar>x * 10 ^ 18\<bar> div c)"
    using assms(2) by (simp add: bn_quot_def)
  moreover have "0 \<le> \<bar>x * 10 ^ 18\<bar> div c" using assms(2) by (simp add: pos_imp_zdiv_nonneg_iff)
  ultimately show ?thesis by simp
qed

text \<open>
  C1, as the code has it: for an L1 token, an enabled chain and an L2 token among the chain's
  remote tokens of the L1 token, with balances, pending transfers and the shortfall non-negative
  (and the pending transfers of the L2 token at most those of the L1 token on the chain),
  \<open>getCurrentAllocationPct\<close> returns 0 when the cumulative balance is 0 and otherwise
  \<open>(effectiveBalance - shortfall) * 10^18 / cumulativeBalance\<close>, truncated towards zero. The
  result is at most \<open>10^18\<close>, and it is at least 0 whenever the shortfall does not exceed the
  effective balance. (A larger shortfall makes the percentage negative.)
\<close>

theorem getCurrentAllocationPct_range:
  assumes "getCumulativeBalance env cl l1Token = Inr cumulative"
      and "chain \<in> set (getEnabledChains cl)"
      and "getRemoteTokensForL1Token env cl l1Token chain = Inr l2Tokens"
      and "l2Token \<in> set l2Tokens"
      and "\<forall>c t. 0 \<le> getBalance env c t"
      and "\<forall>c. 0 \<le> getOutstandingCrossChainTransferAmount env c l1Token None"
      and "getOutstandingCrossChainTransferAmount env chain l1Token (Some l2Token)
             \<le> getOutstandingCrossChainTransferAmount env chain l1Token None"
      and "0 \<le> getShortfallTotalRequirement env chain l2Token"
      and "l1TokenDecimals env l1Token = Some l1Decimals"
      and "l2TokenDecimals env l2Token chain = Some l2Decimals"
      and "effective = ConvertDecimals l2Decimals l1Decimals (getBalance env chain l2Token)
                         + getOutstandingCrossChainTransferAmount env chain l1Token (Some l2Token)"
      and "shortfall = ConvertDecimals l2Decimals l1Decimals
                         (getShortfallTotalRequirement env chain l2Token)"
      and "pct = (if cumulative = 0 then 0
                  else bn_quot ((effective - shortfall) * 10 ^ 18) cumulative)"
  shows "getBalanceOnChain env cl chain l1Token (Some l2Token) = Inr effective
       \<and> getCurrentAllocationPct env cl l1Token chain l2Token = Inr pct
       \<and> pct \<le> 10 ^ 18
       \<and> (shortfall \<le> effective \<longrightarrow> 0 \<le> pct)"
proof -
  have e: "getBalanceOnChain env cl chain l1Token (Some l2Token) = Inr effective"
    using assms(9,10,11) by (simp add: getBalanceOnChain_def bindE_def decimalsE_def)
  have r: "getCurrentAllocationPct env cl l1Token chain l2Token = Inr pct"
    using assms(1,9,10,12,13) e
    by (simp add: getCurrentAllocationPct_def bindE_def decimalsE_def Let_def bn_div_def
        fixedPointAdjustment_def)
  from getCumulativeBalance_chain_le[OF assms(1,2)] assms(5,6)
  obtain b where b: "getBalanceOnChain env cl chain l1Token None = Inr b"
    "b \<le> cumulative" "0 \<le> cumulative" by auto
  have "effective \<le> b"
    unfolding assms(11)
    using b(1) assms(3,4) _ assms(7,9,10)
    by (rule getBalanceOnChain_token_le_total) (use assms(5) in simp)
  moreover have "0 \<le> shortfall"
    unfolding assms(12) using assms(8) by (rule ConvertDecimals_nonneg)
  ultimately have x: "effective - shortfall \<le> cumulative" using b(2) by simp
  have up: "pct \<le> 10 ^ 18"
  proof (cases "cumulative = 0")
    case True
    then show ?thesis using assms(13) by simp
  next
    case False
    then have "0 < cumulative" using b(3) by simp
    from bn_quot_upper[OF x this] show ?thesis using assms(13) False by simp
  qed
  have lo: "shortfall \<le> effective \<longrightarrow> 0 \<le> pct"
  proof
    assume s: "shortfall \<le> effective"
    show "0 \<le> pct"
    proof (cases "cumulative = 0")
      case True
      then show ?thesis using assms(13) by simp
    next
      case False
      then have p: "0 < cumulative" using b(3) by simp
      have "0 \<le> effective - shortfall" using s by simp
      from bn_quot_range[OF this x p] show ?thesis using assms(13) False by simp
    qed
  qed
  show ?thesis using e r up lo by simp
qed


theorem getCurrentAllocationPct_range_witness:
  "getCumulativeBalance (sample_inventory_env 10 90 5 True) sample_inventory_client ''0xUSDC'' = Inr 100
   \<and> 10 \<in> set (getEnabledChains sample_inventory_client)
   \<and> getRemoteTokensForL1Token (sample_inventory_env 10 90 5 True) sample_inventory_client
         ''0xUSDC'' 10 = Inr [''0xUSDCop'']
   \<and> getBalanceOnChain (sample_inventory_env 10 90 5 True) sample_inventory_client 10 ''0xUSDC''
         (Some ''0xUSDCop'') = Inr 90
   \<and> getCurrentAllocationPct (sample_inventory_env 10 90 5 True) sample_inventory_client
         ''0xUSDC'' 10 ''0xUSDCop'' = Inr (85 * 10 ^ 16)
   \<and> (85 * 10 ^ 16 :: int) \<le> 10 ^ 18 \<and> (5 :: int) \<le> 90 \<and> (0 :: int) \<le> 85 * 10 ^ 16
   \<and> getCumulativeBalance (sample_inventory_env 0 0 5 True) sample_inventory_client ''0xUSDC'' = Inr 0
   \<and> getCurrentAllocationPct (sample_inventory_env 0 0 5 True) sample_inventory_client
         ''0xUSDC'' 10 ''0xUSDCop'' = Inr 0"
proof -
  let ?e = "sample_inventory_env 10 90 5 True"
  let ?z = "sample_inventory_env 0 0 5 True"
  let ?cl = "sample_inventory_client"
  have c: "getCumulativeBalance ?e ?cl ''0xUSDC'' = Inr 100" by code_simp
  have z: "getCumulativeBalance ?z ?cl ''0xUSDC'' = Inr 0" by code_simp
  have en: "10 \<in> set (getEnabledChains ?cl)" by code_simp
  have r: "getRemoteTokensForL1Token ?e ?cl ''0xUSDC'' 10 = Inr [''0xUSDCop'']" by code_simp
  have rz: "getRemoteTokensForL1Token ?z ?cl ''0xUSDC'' 10 = Inr [''0xUSDCop'']" by code_simp
  have m: "''0xUSDCop'' \<in> set [''0xUSDCop'']" by simp
  have b: "\<forall>c t. 0 \<le> getBalance ?e c t" by (simp add: sample_inventory_env_def)
  have bz: "\<forall>c t. 0 \<le> getBalance ?z c t" by (simp add: sample_inventory_env_def)
  have o: "\<forall>c. 0 \<le> getOutstandingCrossChainTransferAmount ?e c ''0xUSDC'' None"
    by (simp add: sample_inventory_env_def)
  have oz: "\<forall>c. 0 \<le> getOutstandingCrossChainTransferAmount ?z c ''0xUSDC'' None"
    by (simp add: sample_inventory_env_def)
  have p: "getOutstandingCrossChainTransferAmount ?e 10 ''0xUSDC'' (Some ''0xUSDCop'')
             \<le> getOutstandingCrossChainTransferAmount ?e 10 ''0xUSDC'' None" by code_simp
  have pz: "getOutstandingCrossChainTransferAmount ?z 10 ''0xUSDC'' (Some ''0xUSDCop'')
             \<le> getOutstandingCrossChainTransferAmount ?z 10 ''0xUSDC'' None" by code_simp
  have s: "0 \<le> getShortfallTotalRequirement ?e 10 ''0xUSDCop''" by code_simp
  have sz: "0 \<le> getShortfallTotalRequirement ?z 10 ''0xUSDCop''" by code_simp
  have d1: "l1TokenDecimals ?e ''0xUSDC'' = Some 6" by code_simp
  have d2: "l2TokenDecimals ?e ''0xUSDCop'' 10 = Some 6" by code_simp
  have d1z: "l1TokenDecimals ?z ''0xUSDC'' = Some 6" by code_simp
  have d2z: "l2TokenDecimals ?z ''0xUSDCop'' 10 = Some 6" by code_simp
  have ef: "(90::int) = ConvertDecimals 6 6 (getBalance ?e 10 ''0xUSDCop'')
                         + getOutstandingCrossChainTransferAmount ?e 10 ''0xUSDC'' (Some ''0xUSDCop'')"
    by code_simp
  have efz: "(0::int) = ConvertDecimals 6 6 (getBalance ?z 10 ''0xUSDCop'')
                         + getOutstandingCrossChainTransferAmount ?z 10 ''0xUSDC'' (Some ''0xUSDCop'')"
    by code_simp
  have sf: "(5::int) = ConvertDecimals 6 6 (getShortfallTotalRequirement ?e 10 ''0xUSDCop'')"
    by code_simp
  have sfz: "(5::int) = ConvertDecimals 6 6 (getShortfallTotalRequirement ?z 10 ''0xUSDCop'')"
    by code_simp
  have pc: "(85 * 10 ^ 16 :: int)
              = (if (100::int) = 0 then 0 else bn_quot ((90 - 5) * 10 ^ 18) 100)" by code_simp
  have pcz: "(0 :: int) = (if (0::int) = 0 then 0 else bn_quot ((0 - 5) * 10 ^ 18) 0)" by simp
  show ?thesis
    using c z en r
      getCurrentAllocationPct_range[OF c en r m b o p s d1 d2 ef sf pc]
      getCurrentAllocationPct_range[OF z en rz m bz oz pz sz d1z d2z efz sfz pcz]
    by simp
qed

theorem negative_allocation_counterexample:
  "getCumulativeBalance (sample_inventory_env 10 0 5 True) sample_inventory_client ''0xUSDC'' = Inr 10
   \<and> getCurrentAllocationPct (sample_inventory_env 10 0 5 True) sample_inventory_client
         ''0xUSDC'' 10 ''0xUSDCop'' = Inr (- 5 * 10 ^ 17)"
  by code_simp

lemma targetPctMultiplier_floor:
  assumes "targetPctMultiplier buffer \<ge> 10 ^ 18"
  shows "targetPctMultiplier buffer = (buffer * (95 * 10 ^ 16)) div 10 ^ 18"
    and "0 < targetPctMultiplier buffer"
proof -
  have "0 \<le> buffer"
  proof (rule ccontr)
    assume "\<not> 0 \<le> buffer"
    then have "buffer < 0" by simp
    then have "targetPctMultiplier buffer \<le> 0"
      by (simp add: targetPctMultiplier_def bn_quot_def fixedPointAdjustment_def sgn_if
          pos_imp_zdiv_nonneg_iff)
    with assms show False by simp
  qed
  then show "targetPctMultiplier buffer = (buffer * (95 * 10 ^ 16)) div 10 ^ 18"
    unfolding targetPctMultiplier_def fixedPointAdjustment_def
    by (intro bn_quot_nonneg) simp_all
  show "0 < targetPctMultiplier buffer" using assms by simp
qed

lemma excessWithdrawThresholdPct_floor:
  assumes "targetPctMultiplier buffer \<ge> 10 ^ 18" and "0 \<le> target"
  shows "excessWithdrawThresholdPct target buffer
           = (target * ((buffer * (95 * 10 ^ 16)) div 10 ^ 18)) div 10 ^ 18"
proof -
  have "0 \<le> target * targetPctMultiplier buffer"
    using assms targetPctMultiplier_floor(2)[OF assms(1)] by simp
  then have "excessWithdrawThresholdPct target buffer
               = (target * targetPctMultiplier buffer) div 10 ^ 18"
    unfolding excessWithdrawThresholdPct_def fixedPointAdjustment_def
    by (intro bn_quot_nonneg) simp_all
  then show ?thesis using targetPctMultiplier_floor(1)[OF assms(1)] by simp
qed

text \<open>
  C9, as the code has it: for an (L1 token, spoke chain, L2 token) with \<open>withdrawExcessPeriod\<close>
  configured, an L2 bridge that supports the token, and an overage buffer whose discounted
  multiplier \<open>targetOverageBuffer * 0.95\<close> is at least 1, an excess withdrawal is planned iff the
  current allocation percentage is at least \<open>excessWithdrawThresholdPct\<close> and the pending
  withdrawal volume of the period is strictly below the cap
  \<open>(excessWithdrawThresholdPct - targetPct) * cumulativeBalanceInL2Decimals / 10^18\<close>; the
  amount of the withdrawal itself is not compared with the cap. The threshold is
  \<open>targetPct * (targetOverageBuffer * 0.95 / 10^18) / 10^18\<close> with both divisions flooring.
\<close>

theorem planExcessWithdrawal_iff:
  assumes "getTokenConfig cl l1Token chain (Some l2Token) = Inr (Some cfg)"
      and "withdrawExcessPeriod cfg = Some period"
      and "isSupportedL2Bridge env chain l1Token = Some True"
      and "targetOverageBuffer cfg = Some buffer"
      and "targetPctMultiplier buffer \<ge> 10 ^ 18"
      and "l2TokenDecimals env l2Token chain = Some l2Decimals"
      and "getCurrentAllocationPct env cl l1Token chain l2Token = Inr currentAllocPct"
      and "getL2PendingWithdrawalAmount env period chain l2Token = Some pending"
  shows "planExcessWithdrawal env cl l1Token l1Decimals cumulative chain l2Token
           = Inr (if currentAllocPct \<ge> excessWithdrawThresholdPct (targetPct cfg) buffer
                     \<and> pending < maxL2WithdrawalVolume (targetPct cfg) buffer
                                   (ConvertDecimals l1Decimals l2Decimals cumulative)
                  then Some (bn_quot (ConvertDecimals l1Decimals l2Decimals cumulative
                                      * (currentAllocPct - targetPct cfg)) (10 ^ 18))
                  else None)
       \<and> (0 \<le> targetPct cfg \<longrightarrow>
            excessWithdrawThresholdPct (targetPct cfg) buffer
              = (targetPct cfg * ((buffer * (95 * 10 ^ 16)) div 10 ^ 18)) div 10 ^ 18)"
proof -
  have m: "\<not> \<not> toBNWei 1 \<le> targetPctMultiplier buffer" using assms(5) by (simp add: toBNWei_def)
  have "planExcessWithdrawal env cl l1Token l1Decimals cumulative chain l2Token
           = Inr (if currentAllocPct \<ge> excessWithdrawThresholdPct (targetPct cfg) buffer
                     \<and> pending < maxL2WithdrawalVolume (targetPct cfg) buffer
                                   (ConvertDecimals l1Decimals l2Decimals cumulative)
                  then Some (bn_quot (ConvertDecimals l1Decimals l2Decimals cumulative
                                      * (currentAllocPct - targetPct cfg)) (10 ^ 18))
                  else None)"
    unfolding planExcessWithdrawal_def bindE_def decimalsE_def Let_def
    using assms(1,2,3,4,6,7,8) m
    by (simp add: fixedPointAdjustment_def not_le)
  then show ?thesis using excessWithdrawThresholdPct_floor[OF assms(5)] by simp
qed


theorem planExcessWithdrawal_iff_witness:
  "getTokenConfig sample_inventory_client ''0xUSDC'' 10 (Some ''0xUSDCop'') = Inr (Some sample_config)
   \<and> withdrawExcessPeriod sample_config = Some 3600
   \<and> isSupportedL2Bridge (sample_inventory_env 10 90 0 True) 10 ''0xUSDC'' = Some True
   \<and> targetOverageBuffer sample_config = Some (15 * 10 ^ 17)
   \<and> targetPctMultiplier (15 * 10 ^ 17) \<ge> 10 ^ 18
   \<and> l2TokenDecimals (sample_inventory_env 10 90 0 True) ''0xUSDCop'' 10 = Some 6
   \<and> getCurrentAllocationPct (sample_inventory_env 10 90 0 True) sample_inventory_client
         ''0xUSDC'' 10 ''0xUSDCop'' = Inr (9 * 10 ^ 17)
   \<and> getL2PendingWithdrawalAmount (sample_inventory_env 10 90 0 True) 3600 10 ''0xUSDCop'' = Some 0
   \<and> 0 \<le> targetPct sample_config
   \<and> planExcessWithdrawal (sample_inventory_env 10 90 0 True) sample_inventory_client
         ''0xUSDC'' 6 100 10 ''0xUSDCop''
       = Inr (if 9 * 10 ^ 17 \<ge> excessWithdrawThresholdPct (targetPct sample_config) (15 * 10 ^ 17)
                 \<and> 0 < maxL2WithdrawalVolume (targetPct sample_config) (15 * 10 ^ 17)
                          (ConvertDecimals 6 6 100)
              then Some (bn_quot (ConvertDecimals 6 6 100 * (9 * 10 ^ 17 - targetPct sample_config))
                           (10 ^ 18))
              else None)
   \<and> excessWithdrawThresholdPct (targetPct sample_config) (15 * 10 ^ 17)
       = (targetPct sample_config * ((15 * 10 ^ 17 * (95 * 10 ^ 16)) div 10 ^ 18)) div 10 ^ 18
   \<and> planExcessWithdrawal (sample_inventory_env 10 90 0 True) sample_inventory_client
         ''0xUSDC'' 6 100 10 ''0xUSDCop'' = Inr (Some 40)"
proof -
  let ?e = "sample_inventory_env 10 90 0 True"
  let ?cl = "sample_inventory_client"
  have a1: "getTokenConfig ?cl ''0xUSDC'' 10 (Some ''0xUSDCop'') = Inr (Some sample_config)"
    by (simp add: getTokenConfig_def lookupTokenConfig_def bindE_def sample_inventory_client_def)
  have a2: "withdrawExcessPeriod sample_config = Some 3600" by code_simp
  have a3: "isSupportedL2Bridge ?e 10 ''0xUSDC'' = Some True" by code_simp
  have a4: "targetOverageBuffer sample_config = Some (15 * 10 ^ 17)" by code_simp
  have a5: "targetPctMultiplier (15 * 10 ^ 17) \<ge> 10 ^ 18" by code_simp
  have a6: "l2TokenDecimals ?e ''0xUSDCop'' 10 = Some 6" by code_simp
  have a7: "getCurrentAllocationPct ?e ?cl ''0xUSDC'' 10 ''0xUSDCop'' = Inr (9 * 10 ^ 17)"
    by code_simp
  have a8: "getL2PendingWithdrawalAmount ?e 3600 10 ''0xUSDCop'' = Some 0" by code_simp
  have a9: "0 \<le> targetPct sample_config" by code_simp
  have v: "planExcessWithdrawal ?e ?cl ''0xUSDC'' 6 100 10 ''0xUSDCop'' = Inr (Some 40)"
    by code_simp
  show ?thesis
    using a1 a2 a3 a4 a5 a6 a7 a8 a9 v
      planExcessWithdrawal_iff[OF a1 a2 a3 a4 a5 a6 a7 a8, of 6 100]
    by blast
qed

theorem unsupported_bridge_counterexample:
  "withdrawExcessPeriod sample_config = Some 3600
   \<and> getCurrentAllocationPct (sample_inventory_env 10 90 0 False) sample_inventory_client
         ''0xUSDC'' 10 ''0xUSDCop'' = Inr (9 * 10 ^ 17)
   \<and> (9 * 10 ^ 17 :: int) \<ge> (5 * 10 ^ 17 * (15 * 10 ^ 17) * (95 * 10 ^ 16)) div 10 ^ 36
   \<and> getL2PendingWithdrawalAmount (sample_inventory_env 10 90 0 False) 3600 10 ''0xUSDCop'' = Some 0
   \<and> planExcessWithdrawal (sample_inventory_env 10 90 0 False) sample_inventory_client
         ''0xUSDC'' 6 100 10 ''0xUSDCop'' = Inr None"
  by code_simp

lemma singleton_with_member: "length xs = 1 \<Longrightarrow> x \<in> set xs \<Longrightarrow> xs = [x]"
  by (cases xs) auto

lemma refundChainsAfterLoop_forced:
  "depositForcesOriginChainRepayment renv deposit \<Longrightarrow>
   refundChainsAfterLoop renv deposit True hub eligible = [originChainId deposit]
   \<or> refundChainsAfterLoop renv deposit True hub eligible = []"
  using singleton_with_member[of eligible "originChainId deposit"]
  by (auto simp: refundChainsAfterLoop_def)

lemma refundChainsAfterLoop_hub:
  "\<not> depositForcesOriginChainRepayment renv deposit
     \<Longrightarrow> hub \<in> set (refundChainsAfterLoop renv deposit False hub eligible)"
  by (simp add: refundChainsAfterLoop_def)

text \<open>
  C2: for every deposit with \<open>fromLiteChain = true\<close>, whatever \<open>determineRefundChainId\<close>
  returns is either exactly \<open>[originChainId]\<close> or the empty list. This holds whether or not
  the origin chain can be quickly rebalanced, so in particular when it cannot.
\<close>

theorem lite_chain_origin_or_empty:
  assumes "fromLiteChain deposit"
      and "determineRefundChainId env renv cl deposit l1TokenGiven = Inr refundChains"
  shows "refundChains = [originChainId deposit] \<or> refundChains = []"
proof -
  have f: "depositForcesOriginChainRepayment renv deposit"
    using assms(1) by (simp add: depositForcesOriginChainRepayment_def)
  then have c: "\<not> canTakeDestinationChainRepayment renv deposit"
    by (simp add: canTakeDestinationChainRepayment_def)
  show ?thesis
    using assms(2) f c refundChainsAfterLoop_forced[OF f, of "hubChainId env"]
    unfolding determineRefundChainId_def
    by (auto simp: bindE_Inr_iff split: if_splits)
qed

text \<open>
  C3, as the code has it: for every deposit that does not force origin-chain repayment,
  \<open>determineRefundChainId\<close> returns the empty list when the output token is invalid; otherwise,
  with inventory management disabled, it returns the one-element list of the destination chain
  when repayment can be taken there and of the origin chain when not; otherwise, with inventory
  management enabled, the hub chain ID is in every list it returns.
\<close>

theorem hub_chain_fallback:
  assumes "\<not> depositForcesOriginChainRepayment renv deposit"
  shows "(invalidOutputToken renv deposit
            \<longrightarrow> determineRefundChainId env renv cl deposit l1TokenGiven = Inr [])
       \<and> (\<not> invalidOutputToken renv deposit \<and> \<not> isInventoryManagementEnabled cl
            \<longrightarrow> determineRefundChainId env renv cl deposit l1TokenGiven
                  = Inr [if canTakeDestinationChainRepayment renv deposit
                         then destinationChainId deposit else originChainId deposit])
       \<and> (\<not> invalidOutputToken renv deposit \<and> isInventoryManagementEnabled cl
            \<and> determineRefundChainId env renv cl deposit l1TokenGiven = Inr refundChains
            \<longrightarrow> hubChainId env \<in> set refundChains)"
proof (intro conjI impI)
  assume "invalidOutputToken renv deposit"
  then show "determineRefundChainId env renv cl deposit l1TokenGiven = Inr []"
    by (simp add: determineRefundChainId_def)
next
  assume "\<not> invalidOutputToken renv deposit \<and> \<not> isInventoryManagementEnabled cl"
  then show "determineRefundChainId env renv cl deposit l1TokenGiven
               = Inr [if canTakeDestinationChainRepayment renv deposit
                      then destinationChainId deposit else originChainId deposit]"
    by (simp add: determineRefundChainId_def)
next
  assume h: "\<not> invalidOutputToken renv deposit \<and> isInventoryManagementEnabled cl
             \<and> determineRefundChainId env renv cl deposit l1TokenGiven = Inr refundChains"
  then show "hubChainId env \<in> set refundChains"
    using assms refundChainsAfterLoop_hub[OF assms, of "hubChainId env"]
    unfolding determineRefundChainId_def
    by (auto simp: bindE_Inr_iff split: if_splits)
qed

theorem lite_chain_origin_or_empty_witness:
  "fromLiteChain (sample_route_deposit 10 1 True)
   \<and> determineRefundChainId (sample_inventory_env 100 10 0 True) (sample_repayment_env False)
         sample_inventory_client (sample_route_deposit 10 1 True) None = Inr [10]
   \<and> determineRefundChainId (sample_inventory_env 10 100 0 True) (sample_repayment_env False)
         sample_inventory_client (sample_route_deposit 10 1 True) None = Inr []
   \<and> ([10] = [originChainId (sample_route_deposit 10 1 True)] \<or> [10::int] = [])"
proof -
  let ?d = "sample_route_deposit 10 1 True"
  have l: "fromLiteChain ?d" by code_simp
  have r1: "determineRefundChainId (sample_inventory_env 100 10 0 True) (sample_repayment_env False)
              sample_inventory_client ?d None = Inr [10]" by code_simp
  have r2: "determineRefundChainId (sample_inventory_env 10 100 0 True) (sample_repayment_env False)
              sample_inventory_client ?d None = Inr []" by code_simp
  show ?thesis
    using l r1 r2 lite_chain_origin_or_empty[OF l r1] lite_chain_origin_or_empty[OF l r2]
    by blast
qed

theorem hub_chain_fallback_witness:
  "\<not> depositForcesOriginChainRepayment (sample_repayment_env False) (sample_route_deposit 10 1 False)
   \<and> \<not> invalidOutputToken (sample_repayment_env False) (sample_route_deposit 10 1 False)
   \<and> isInventoryManagementEnabled sample_inventory_client
   \<and> determineRefundChainId (sample_inventory_env 100 10 0 True) (sample_repayment_env False)
         sample_inventory_client (sample_route_deposit 10 1 False) None = Inr [10, 1]
   \<and> hubChainId (sample_inventory_env 100 10 0 True) \<in> set [10, 1]
   \<and> \<not> isInventoryManagementEnabled disabled_inventory_client
   \<and> canTakeDestinationChainRepayment (sample_repayment_env False) (sample_route_deposit 10 1 False)
   \<and> determineRefundChainId (sample_inventory_env 100 10 0 True) (sample_repayment_env False)
         disabled_inventory_client (sample_route_deposit 10 1 False) None
       = Inr [destinationChainId (sample_route_deposit 10 1 False)]
   \<and> \<not> depositForcesOriginChainRepayment (sample_repayment_env False)
         ((sample_route_deposit 10 1 False)\<lparr> outputToken := ''0x0'' \<rparr>)
   \<and> invalidOutputToken (sample_repayment_env False)
         ((sample_route_deposit 10 1 False)\<lparr> outputToken := ''0x0'' \<rparr>)
   \<and> determineRefundChainId (sample_inventory_env 100 10 0 True) (sample_repayment_env False)
         sample_inventory_client ((sample_route_deposit 10 1 False)\<lparr> outputToken := ''0x0'' \<rparr>) None
       = Inr []"
proof -
  let ?d = "sample_route_deposit 10 1 False"
  let ?i = "(sample_route_deposit 10 1 False)\<lparr> outputToken := ''0x0'' \<rparr>"
  let ?e = "sample_inventory_env 100 10 0 True"
  let ?r = "sample_repayment_env False"
  have a1: "\<not> depositForcesOriginChainRepayment ?r ?d" by code_simp
  have a2: "\<not> invalidOutputToken ?r ?d" by code_simp
  have a3: "isInventoryManagementEnabled sample_inventory_client" by code_simp
  have a4: "determineRefundChainId ?e ?r sample_inventory_client ?d None = Inr [10, 1]"
    by code_simp
  have b1: "\<not> isInventoryManagementEnabled disabled_inventory_client" by code_simp
  have b2: "canTakeDestinationChainRepayment ?r ?d" by code_simp
  have c1: "\<not> depositForcesOriginChainRepayment ?r ?i" by code_simp
  have c2: "invalidOutputToken ?r ?i" by code_simp
  show ?thesis
    using a1 a2 a3 a4 b1 b2 c1 c2
      hub_chain_fallback[OF a1, of ?e sample_inventory_client None "[10, 1]"]
      hub_chain_fallback[OF a1, of ?e disabled_inventory_client None "[]"]
      hub_chain_fallback[OF c1, of ?e sample_inventory_client None "[]"]
    by simp
qed

theorem hub_chain_absent_counterexample:
  "\<not> depositForcesOriginChainRepayment (sample_repayment_env False) (sample_route_deposit 137 10 False)
   \<and> determineRefundChainId (sample_inventory_env 100 10 0 True) (sample_repayment_env False)
         disabled_inventory_client (sample_route_deposit 137 10 False) None = Inr [10]
   \<and> \<not> depositForcesOriginChainRepayment (sample_repayment_env False)
         ((sample_route_deposit 137 10 False)\<lparr> outputToken := ''0x0'' \<rparr>)
   \<and> determineRefundChainId (sample_inventory_env 100 10 0 True) (sample_repayment_env False)
         sample_inventory_client ((sample_route_deposit 137 10 False)\<lparr> outputToken := ''0x0'' \<rparr>) None
       = Inr []
   \<and> hubChainId (sample_inventory_env 100 10 0 True) = 1"
  by code_simp

lemma prePopulate_tokenPrices:
  "tokenPrices (prePopulate pc tokens) a =
     (case tokenPrices pc a of
        Some p \<Rightarrow> Some p
      | None \<Rightarrow> if a \<in> keyOf ` snd ` set tokens then Some 0 else None)"
  unfolding prePopulate_def
proof (induction tokens arbitrary: pc)
  case Nil
  then show ?case by (simp split: option.splits)
next
  case (Cons t tokens)
  obtain symbol address where t: "t = (symbol, address)" by (cases t)
  show ?case
    by (simp add: t Cons.IH split: option.splits)
qed

lemma prePopulate_lastKnownPrice:
  "lastKnownPrice (prePopulate pc tokens) a = lastKnownPrice pc a"
  by (simp add: lastKnownPrice_def prePopulate_tokenPrices split: option.splits)

text \<open>
  C7: when the batched price fetch of \<open>updateTokenPrices\<close> fails, the call ends with an error
  thrown to its caller, every price stored before the call is still stored unchanged, and the
  last known price of every address (0 for an address without one) is what it was before: prices
  change only when the fetch succeeds.
\<close>

theorem updateTokenPrices_fetch_failure:
  assumes "tokensToUpdate env pc = Inr tokens"
      and "getPricesByAddress env (dedupFirst (map snd tokens)) = None"
  shows "snd (updateTokenPrices env pc) \<noteq> None
       \<and> (\<forall>a p. tokenPrices pc a = Some p \<longrightarrow> tokenPrices (fst (updateTokenPrices env pc)) a = Some p)
       \<and> (\<forall>a. lastKnownPrice (fst (updateTokenPrices env pc)) a = lastKnownPrice pc a)"
proof -
  have u: "updateTokenPrices env pc
             = (prePopulate pc tokens, Some (priceUpdateError env (prePopulate pc tokens) tokens))"
    using assms by (simp add: updateTokenPrices_def Let_def)
  show ?thesis
    by (simp add: u prePopulate_tokenPrices prePopulate_lastKnownPrice)
qed

theorem updateTokenPrices_fetch_failure_witness:
  "tokensToUpdate sample_env (sample_client False 0)
     = Inr [(''USDC'', Some ''0xUSDC''), (''ETH'', Some ''0xWETH'')]
   \<and> getPricesByAddress sample_env
        (dedupFirst (map snd [(''USDC'', Some ''0xUSDC''), (''ETH'', Some ''0xWETH'')])) = None
   \<and> tokenPrices (sample_client False 0) ''0xWETH'' = Some (2000 * 10 ^ 18)
   \<and> snd (updateTokenPrices sample_env (sample_client False 0)) \<noteq> None
   \<and> tokenPrices (fst (updateTokenPrices sample_env (sample_client False 0))) ''0xWETH''
       = Some (2000 * 10 ^ 18)"
proof -
  let ?pc = "sample_client False 0"
  have t: "tokensToUpdate sample_env ?pc = Inr [(''USDC'', Some ''0xUSDC''), (''ETH'', Some ''0xWETH'')]"
    by code_simp
  have f: "getPricesByAddress sample_env
             (dedupFirst (map snd [(''USDC'', Some ''0xUSDC''), (''ETH'', Some ''0xWETH'')])) = None"
    by (simp add: sample_env_def)
  have p: "tokenPrices ?pc ''0xWETH'' = Some (2000 * 10 ^ 18)" by code_simp
  show ?thesis
    using t f p updateTokenPrices_fetch_failure[OF t f]
    by blast
qed

lemma matchFinalized_None_iff:
  "matchFinalized initiated f = None
     \<longleftrightarrow> claimed_messageHash f \<notin> sent_messageHash ` set initiated"
proof (cases "find (\<lambda>initiated. sent_messageHash initiated = claimed_messageHash f) initiated")
  case None
  then have "claimed_messageHash f \<notin> sent_messageHash ` set initiated"
    by (auto simp: find_None_iff)
  then show ?thesis by (simp add: matchFinalized_def None)
next
  case (Some q)
  then have "q \<in> set initiated \<and> sent_messageHash q = claimed_messageHash f"
    by (auto simp: find_Some_iff intro!: nth_mem)
  then have "claimed_messageHash f \<in> sent_messageHash ` set initiated"
    by (metis imageI)
  then show ?thesis using Some by (simp add: matchFinalized_def)
qed

lemma matchFinalized_Some:
  assumes "matchFinalized initiated f = Some ev"
  shows "eventCoordinates ev = logCoordinates f
       \<and> (\<exists>i \<in> set initiated. sent_messageHash i = claimed_messageHash f
                                 \<and> amount ev = sent_value i)"
  using assms
  by (auto simp: matchFinalized_def processEvent_def eventCoordinates_def logCoordinates_def
      find_Some_iff split: option.splits intro!: nth_mem)

lemma finalization_matcher_scenario:
  "map sent_messageHash
       (filter (\<lambda>e. sent_value e > 0) (queryMessageSent sample_bridge_env ''0xRELAYER'' 100 200))
     = [''h2'', ''h3'']
   \<and> queryL2BridgeFinalizationEvents sample_bridge_env ''0xWETH'' ''0xRELAYER'' ''0xRELAYER''
         100 200
       = Inr [(''0xWETHlinea'',
               [\<lparr> amount = 10, BridgeEvent.blockNumber = 110, txnIndex = 4,
                   BridgeEvent.logIndex = 1, txnRef = ''0xb2'' \<rparr>,
                \<lparr> amount = 20, BridgeEvent.blockNumber = 111, txnIndex = 0,
                   BridgeEvent.logIndex = 2, txnRef = ''0xb3'' \<rparr>])]"
  by code_simp

text \<open>
  C10: the join looks a finalization up among all the initiations of the hub window, the
  zero-value ones included; only the list of hashes handed to the destination-chain query leaves
  them out. When the only initiation to the recipient in the window is the zero-value message
  \<open>h1\<close>, the list of hashes is empty, a node that reads an empty list as no constraint answers
  with every \<open>MessageClaimed\<close> log of the range, and the matcher emits the finalization of
  \<open>h1\<close> as an event of amount 0; the finalizations of \<open>h2\<close>, \<open>h3\<close> and \<open>h4\<close>, without an
  initiation in the window, are dropped.
\<close>

theorem zero_value_finalization_emitted:
  "map sent_messageHash (queryMessageSent zero_value_bridge_env ''0xRELAYER'' 100 200) = [''h1'']
   \<and> map sent_value (queryMessageSent zero_value_bridge_env ''0xRELAYER'' 100 200) = [0]
   \<and> map claimed_messageHash (queryMessageClaimed zero_value_bridge_env [] 100 200)
       = [''h2'', ''h3'', ''h4'', ''h1'']
   \<and> queryL2BridgeFinalizationEvents zero_value_bridge_env ''0xWETH'' ''0xRELAYER'' ''0xRELAYER''
         100 200
       = Inr [(''0xWETHlinea'',
               [\<lparr> amount = 0, BridgeEvent.blockNumber = 113, txnIndex = 7,
                   BridgeEvent.logIndex = 0, txnRef = ''0xb1'' \<rparr>])]"
  by code_simp

end
